theory Spec2Isabelle
  imports Main "HOL-Library.Sublist"
begin

section \<open>Row-level security policies (supabase/migrations/20250311165250_turquoise_bird.sql)\<close>

text \<open>
  SQL conditions are three-valued: a comparison with \<open>NULL\<close> is \<open>NULL\<close>, and a row passes a
  \<open>WHERE\<close> or \<open>USING\<close> clause only when the condition is \<open>TRUE\<close>. A nullable SQL value is an
  \<open>option\<close> (\<open>None\<close> is \<open>NULL\<close>), a condition is a \<open>bool option\<close>.
\<close>

type_synonym sql_bool = "bool option"

definition sql_eq :: "'a option \<Rightarrow> 'a option \<Rightarrow> sql_bool" where
  "sql_eq a b = (case a of None \<Rightarrow> None | Some x \<Rightarrow> (case b of None \<Rightarrow> None | Some y \<Rightarrow> Some (x = y)))"

definition sql_and :: "sql_bool \<Rightarrow> sql_bool \<Rightarrow> sql_bool" where
  "sql_and a b =
     (if a = Some False \<or> b = Some False then Some False
      else if a = None \<or> b = None then None else Some True)"

definition sql_or :: "sql_bool \<Rightarrow> sql_bool \<Rightarrow> sql_bool" where
  "sql_or a b =
     (if a = Some True \<or> b = Some True then Some True
      else if a = None \<or> b = None then None else Some False)"

definition sql_true :: "sql_bool \<Rightarrow> bool" where
  "sql_true a = (a = Some True)"

text \<open>
  A row of \<open>auth.users\<close>: its \<open>id\<close> and \<open>raw_user_meta_data->>'role'\<close>, which is \<open>NULL\<close> when the
  metadata has no \<open>role\<close> key.
\<close>

record auth_user =
  au_id :: string
  au_role :: "string option"

text \<open>
  The caller of a query. Supabase runs a request without a user session under the database
  role \<open>anon\<close>, where \<open>auth.uid()\<close> is \<open>NULL\<close>, and a request of a signed-in user under the role
  \<open>authenticated\<close>, where \<open>auth.uid()\<close> is the user's id.
\<close>

datatype caller = Anon | Authenticated string

record pg_ctx =
  pg_caller :: caller
  auth_users :: "auth_user list"

fun auth_uid :: "caller \<Rightarrow> string option" where
  "auth_uid Anon = None"
| "auth_uid (Authenticated u) = Some u"

fun to_authenticated :: "caller \<Rightarrow> bool" where
  "to_authenticated Anon = False"
| "to_authenticated (Authenticated u) = True"

text \<open>
  \<^verbatim>\<open>RETURN EXISTS (SELECT 1 FROM auth.users
       WHERE auth.uid() = id AND raw_user_meta_data->>'role' = '<role>')\<close>
  The three helper functions differ in the role literal only.
\<close>

definition role_from_metadata :: "string \<Rightarrow> pg_ctx \<Rightarrow> bool" where
  "role_from_metadata r ctx =
     list_ex (\<lambda>u. sql_true (sql_and (sql_eq (auth_uid (pg_caller ctx)) (Some (au_id u)))
                                    (sql_eq (au_role u) (Some r))))
       (auth_users ctx)"

definition is_admin_from_metadata :: "pg_ctx \<Rightarrow> bool" where
  "is_admin_from_metadata = role_from_metadata ''admin''"

definition is_instructor_from_metadata :: "pg_ctx \<Rightarrow> bool" where
  "is_instructor_from_metadata = role_from_metadata ''instructor''"

definition is_student_from_metadata :: "pg_ctx \<Rightarrow> bool" where
  "is_student_from_metadata = role_from_metadata ''student''"

text \<open>
  \<^verbatim>\<open>CREATE POLICY "allow_users_to_read_own_profile" ON user_profiles
    FOR SELECT TO authenticated
    USING (id = auth.uid() OR is_admin_from_metadata());\<close>
  The argument \<open>row_id\<close> is the \<open>id\<close> column of the row read (a primary key, never \<open>NULL\<close>).
  The policy is granted to the role \<open>authenticated\<close> only.
\<close>

definition allow_users_to_read_own_profile :: "pg_ctx \<Rightarrow> string \<Rightarrow> bool" where
  "allow_users_to_read_own_profile ctx row_id =
     (to_authenticated (pg_caller ctx) \<and>
      sql_true (sql_or (sql_eq (Some row_id) (auth_uid (pg_caller ctx)))
                       (Some (is_admin_from_metadata ctx))))"

text \<open>
  \<^verbatim>\<open>CREATE POLICY "allow_students_to_read_own_record" ON students
    FOR SELECT TO authenticated
    USING (id = auth.uid() OR is_admin_from_metadata() OR is_instructor_from_metadata());\<close>
\<close>

definition allow_students_to_read_own_record :: "pg_ctx \<Rightarrow> string \<Rightarrow> bool" where
  "allow_students_to_read_own_record ctx row_id =
     (to_authenticated (pg_caller ctx) \<and>
      sql_true (sql_or (sql_or (sql_eq (Some row_id) (auth_uid (pg_caller ctx)))
                               (Some (is_admin_from_metadata ctx)))
                       (Some (is_instructor_from_metadata ctx))))"

text \<open>
  The caller's role claim: the \<open>role\<close> entry of the metadata of the caller's own row of
  \<open>auth.users\<close>; none for a caller without a session or without such a row.
\<close>

definition role_claim :: "pg_ctx \<Rightarrow> string option" where
  "role_claim ctx =
     (case auth_uid (pg_caller ctx) of
        None \<Rightarrow> None
      | Some uid \<Rightarrow>
          (case find (\<lambda>u. au_id u = uid) (auth_users ctx) of
             None \<Rightarrow> None
           | Some u \<Rightarrow> au_role u))"

text \<open>Sample contexts: an administrator, a student and an instructor, each signed in.\<close>

definition sample_users :: "auth_user list" where
  "sample_users =
     [\<lparr>au_id = ''u-admin'', au_role = Some ''admin''\<rparr>,
      \<lparr>au_id = ''u-stud'', au_role = Some ''student''\<rparr>,
      \<lparr>au_id = ''u-inst'', au_role = Some ''instructor''\<rparr>]"

definition as_admin :: pg_ctx where
  "as_admin = \<lparr>pg_caller = Authenticated ''u-admin'', auth_users = sample_users\<rparr>"

definition as_student :: pg_ctx where
  "as_student = \<lparr>pg_caller = Authenticated ''u-stud'', auth_users = sample_users\<rparr>"


section \<open>Data model (src/types.ts)\<close>

text \<open>
  Field names are those of the interfaces, prefixed where several interfaces share one
  (\<open>id\<close>, \<open>name\<close>, \<open>email\<close>). \<open>max_capacity\<close> and \<open>current_enrollment\<close> are integer columns;
  the view compares and increments them as numbers.
\<close>

datatype role = Admin | Student | Instructor

record user =
  user_id :: string
  user_email :: string
  user_role :: role
  user_name :: "string option"

record course =
  c_id :: string
  c_name :: string
  c_code :: string
  c_department :: string
  c_instructor :: string
  c_instructor_id :: string
  max_capacity :: int
  current_enrollment :: int
  c_created_at :: string

record student =
  s_id :: string
  s_name :: string
  s_email :: string
  academic_status :: string

record user_profile =
  p_id :: string
  p_email :: string
  p_name :: string
  p_role :: string

text \<open>
  An Instructor row, with the columns the views read (\<open>select('id, name, department')\<close>,
  the \<open>Instructor\<close> interface of the two modals).
\<close>

record instructor =
  i_id :: string
  i_name :: string
  i_department :: string

text \<open>An Enrollment row, with the columns the view writes; the others are database defaults.\<close>

record enrollment =
  course_id :: string
  student_id :: string
  enrollment_status :: string

datatype jval = JStr string | JBool bool

record log =
  action :: string
  performed_by :: "string option"
  details :: "(string \<times> jval) list"

text \<open>A log entry as the admin view shows it, with the performing user's name and role.\<close>

record shown_log = log +
  l_id :: string
  l_created_at :: string
  l_user_name :: string
  l_user_role :: string


section \<open>The direct profile lookup (same migration, lines 98-121)\<close>

text \<open>
  \<^verbatim>\<open>CREATE FUNCTION get_user_profile_direct(user_id UUID)
    RETURNS TABLE (id UUID, email TEXT, name TEXT, role TEXT)
    SECURITY DEFINER LANGUAGE sql
    AS $$ SELECT id, email, name, role FROM user_profiles WHERE id = user_id; $$;\<close>
  The function runs with the rights of its owner, so the row policies are not applied to
  its query for the caller, and its body tests neither \<open>auth.uid()\<close> nor a role. \<open>tbl\<close> is
  the table \<open>user_profiles\<close>.
\<close>

definition get_user_profile_direct :: "user_profile list \<Rightarrow> string \<Rightarrow> user_profile list" where
  "get_user_profile_direct tbl uid = filter (\<lambda>p. p_id p = uid) tbl"

text \<open>
  \<^verbatim>\<open>GRANT EXECUTE ON FUNCTION get_user_profile_direct TO authenticated;\<close>
  A call of a signed-in caller gives the rows; \<open>None\<close> is a call the migration gives no
  privilege for.
\<close>

definition call_get_user_profile_direct ::
  "pg_ctx \<Rightarrow> user_profile list \<Rightarrow> string \<Rightarrow> user_profile list option" where
  "call_get_user_profile_direct ctx tbl uid =
     (if to_authenticated (pg_caller ctx) then Some (get_user_profile_direct tbl uid) else None)"

definition sample_profiles :: "user_profile list" where
  "sample_profiles =
     [\<lparr>p_id = ''u-admin'', p_email = ''root@example.com'', p_name = ''Root'', p_role = ''admin''\<rparr>,
      \<lparr>p_id = ''u-stud'', p_email = ''stu@example.com'', p_name = ''Stu'', p_role = ''student''\<rparr>]"


section \<open>The Entity Store, the browser and the effects of a command\<close>

record store =
  students :: "student list"
  user_profiles :: "user_profile list"
  instructors :: "instructor list"
  courses :: "course list"
  enrollments :: "enrollment list"
  logs :: "log list"

text \<open>
  The browser's \<open>localStorage\<close>, with the two keys the views use. A key never written is
  \<open>None\<close> (\<open>getItem\<close> returns \<open>null\<close>); the values are the arrays the views store with
  \<open>JSON.stringify\<close> and read back with \<open>JSON.parse\<close>.
\<close>

record local_storage =
  demoCourses :: "course list option"
  demoLogs :: "shown_log list option"

datatype table = Students | User_profiles | Instructors | Courses | Enrollments | Logs
datatype verb = Select | Insert | Update | Delete

text \<open>Every request to the Entity Store and every access to \<open>localStorage\<close> is recorded.\<close>

datatype access = Db table verb | LsGet string | LsSet string

datatype toast = ToastError string | ToastSuccess string

record world =
  db :: store
  ls :: local_storage
  console :: "string list"
  toasts :: "toast list"
  trace :: "access list"

text \<open>
  A request can fail for a reason outside the tables (the network, a denied policy, a
  constraint not modelled here). Which requests fail, and with which error code, is an
  input of every command: \<open>f t v = Some code\<close> makes the request \<open>v\<close> on table \<open>t\<close> answer
  with that error and change nothing.
\<close>

type_synonym faults = "table \<Rightarrow> verb \<Rightarrow> string option"

text \<open>
  A command of a view is a function from the world before to the world after, with the
  result the view keeps. Left out of the world: the loading flags and the open modal of
  a view, and the callbacks that close a modal. The fetches that a command starts at its
  end without awaiting them are commands of their own. The client reports a failed
  request as an error value, and \<open>JSON.parse\<close> only reads what \<open>JSON.stringify\<close> wrote,
  so the \<open>catch\<close> branches of the sources are never entered.
\<close>

definition no_faults :: faults where
  "no_faults t v = None"

definition accessed :: "access \<Rightarrow> world \<Rightarrow> world" where
  "accessed a w = w\<lparr>trace := trace w @ [a]\<rparr>"

definition console_error :: "string \<Rightarrow> world \<Rightarrow> world" where
  "console_error m w = w\<lparr>console := console w @ [m]\<rparr>"

definition toast_error :: "string \<Rightarrow> world \<Rightarrow> world" where
  "toast_error m w = w\<lparr>toasts := toasts w @ [ToastError m]\<rparr>"

definition toast_success :: "string \<Rightarrow> world \<Rightarrow> world" where
  "toast_success m w = w\<lparr>toasts := toasts w @ [ToastSuccess m]\<rparr>"

text \<open>
  \<open>.single()\<close>: the row when the query selects exactly one, the error \<open>PGRST116\<close> otherwise.
\<close>

definition single :: "string option \<Rightarrow> 'r list \<Rightarrow> string + 'r" where
  "single fault rows =
     (case fault of
        Some c \<Rightarrow> Inl c
      | None \<Rightarrow> (case rows of [r] \<Rightarrow> Inr r | _ \<Rightarrow> Inl ''PGRST116''))"

text \<open>\<^verbatim>\<open>supabase.from('students').select('id').eq('id', uid).single()\<close>\<close>

definition students_select_single :: "faults \<Rightarrow> string \<Rightarrow> world \<Rightarrow> (string + student) \<times> world" where
  "students_select_single f uid w =
     (single (f Students Select) (filter (\<lambda>s. s_id s = uid) (students (db w))),
      accessed (Db Students Select) w)"

text \<open>\<^verbatim>\<open>supabase.from('user_profiles').select('name, email').eq('id', uid).single()\<close>\<close>

definition user_profiles_select_single ::
  "faults \<Rightarrow> string \<Rightarrow> world \<Rightarrow> (string + user_profile) \<times> world" where
  "user_profiles_select_single f uid w =
     (single (f User_profiles Select) (filter (\<lambda>p. p_id p = uid) (user_profiles (db w))),
      accessed (Db User_profiles Select) w)"

text \<open>
  Modelled from the spec: the declaration of the \<open>students\<close> table is not among the sources;
  a Student is one row per identity, so a second row with the same id is a unique violation
  (error code \<open>23505\<close>).
\<close>

definition students_insert :: "faults \<Rightarrow> student \<Rightarrow> world \<Rightarrow> string option \<times> world" where
  "students_insert f s w =
     (let w' = accessed (Db Students Insert) w in
      case f Students Insert of
        Some c \<Rightarrow> (Some c, w')
      | None \<Rightarrow>
          if list_ex (\<lambda>r. s_id r = s_id s) (students (db w)) then (Some ''23505'', w')
          else (None, w'\<lparr>db := (db w')\<lparr>students := students (db w') @ [s]\<rparr>\<rparr>))"

definition enrolled :: "string \<Rightarrow> string \<Rightarrow> store \<Rightarrow> bool" where
  "enrolled cid sid s = list_ex (\<lambda>e. course_id e = cid \<and> student_id e = sid) (enrollments s)"

text \<open>
  Modelled from the spec: the declaration of the \<open>enrollments\<close> table is not among the
  sources; the spec gives it the uniqueness invariant "at most one enrollment row per
  (course, student) pair", and the store reports a violation with the error code \<open>23505\<close>,
  the code the view matches.
\<close>

definition enrollments_insert :: "faults \<Rightarrow> enrollment \<Rightarrow> world \<Rightarrow> string option \<times> world" where
  "enrollments_insert f e w =
     (let w' = accessed (Db Enrollments Insert) w in
      case f Enrollments Insert of
        Some c \<Rightarrow> (Some c, w')
      | None \<Rightarrow>
          if enrolled (course_id e) (student_id e) (db w) then (Some ''23505'', w')
          else (None, w'\<lparr>db := (db w')\<lparr>enrollments := enrollments (db w') @ [e]\<rparr>\<rparr>))"

text \<open>
  \<^verbatim>\<open>supabase.from('enrollments').delete().eq('course_id', cid).eq('student_id', sid)\<close>
  deletes the matching rows; there being none is not an error.
\<close>

definition enrollments_delete :: "faults \<Rightarrow> string \<Rightarrow> string \<Rightarrow> world \<Rightarrow> string option \<times> world" where
  "enrollments_delete f cid sid w =
     (let w' = accessed (Db Enrollments Delete) w in
      case f Enrollments Delete of
        Some c \<Rightarrow> (Some c, w')
      | None \<Rightarrow>
          (None, w'\<lparr>db := (db w')\<lparr>enrollments :=
             filter (\<lambda>e. \<not> (course_id e = cid \<and> student_id e = sid)) (enrollments (db w'))\<rparr>\<rparr>))"

text \<open>
  \<^verbatim>\<open>supabase.from('courses').update({ current_enrollment: n }).eq('id', cid)\<close>
  writes \<open>n\<close> into the matching rows; there being none is not an error.
\<close>

definition courses_update_enrollment ::
  "faults \<Rightarrow> string \<Rightarrow> int \<Rightarrow> world \<Rightarrow> string option \<times> world" where
  "courses_update_enrollment f cid n w =
     (let w' = accessed (Db Courses Update) w in
      case f Courses Update of
        Some c \<Rightarrow> (Some c, w')
      | None \<Rightarrow>
          (None, w'\<lparr>db := (db w')\<lparr>courses :=
             map (\<lambda>c. if c_id c = cid then c\<lparr>current_enrollment := n\<rparr> else c) (courses (db w'))\<rparr>\<rparr>))"

text \<open>\<^verbatim>\<open>supabase.from('logs').insert([entry])\<close>\<close>

definition logs_insert :: "faults \<Rightarrow> log \<Rightarrow> world \<Rightarrow> string option \<times> world" where
  "logs_insert f l w =
     (let w' = accessed (Db Logs Insert) w in
      case f Logs Insert of
        Some c \<Rightarrow> (Some c, w')
      | None \<Rightarrow> (None, w'\<lparr>db := (db w')\<lparr>logs := logs (db w') @ [l]\<rparr>\<rparr>))"


section \<open>Enroll and drop (src/components/StudentDashboard.tsx)\<close>

text \<open>The JavaScript \<open>a || b\<close> on strings: the empty string is falsy.\<close>

definition js_or :: "string \<Rightarrow> string \<Rightarrow> string" where
  "js_or a b = (if a = [] then b else a)"

definition opt_str :: "string option \<Rightarrow> string" where
  "opt_str a = (case a of None \<Rightarrow> [] | Some x \<Rightarrow> x)"

text \<open>
  \<open>ensureStudentProfile\<close>: true when the caller's Student row exists or could be created
  from its Profile. \<open>user\<close> is the signed-in user of the auth store of the view.
\<close>

definition ensureStudentProfile :: "faults \<Rightarrow> user option \<Rightarrow> world \<Rightarrow> bool \<times> world" where
  "ensureStudentProfile f user w =
     (case user of
        None \<Rightarrow> (False, w)
      | Some u \<Rightarrow>
          (case students_select_single f (user_id u) w of
             (Inl checkError, w1) \<Rightarrow>
               if checkError \<noteq> ''PGRST116''
               then (False, console_error ''Error checking student record:'' w1)
               else
                 (case user_profiles_select_single f (user_id u) w1 of
                    (Inl profileError, w2) \<Rightarrow>
                      (False, console_error ''Error getting user profile:'' w2)
                  | (Inr userProfile, w2) \<Rightarrow>
                      (case students_insert f
                              \<lparr>s_id = user_id u,
                               s_name = js_or (p_name userProfile)
                                          (js_or (opt_str (user_name u)) ''Student User''),
                               s_email = js_or (p_email userProfile) (user_email u),
                               academic_status = ''active''\<rparr> w2 of
                         (Some createError, w3) \<Rightarrow>
                           (False, toast_error ''Failed to create student profile''
                                     (console_error ''Error creating student record:'' w3))
                       | (None, w3) \<Rightarrow> (True, w3)))
           | (Inr existingStudent, w1) \<Rightarrow> (True, w1)))"

text \<open>
  How a command of the student view ends; each outcome but the last is an early return
  after an error toast.
\<close>

datatype outcome =
    NotLoggedIn
  | ProfileError
  | CapacityExceeded
  | DuplicateEnrollment
  | StoreError
  | Success

text \<open>
  \<open>enrollInCourse\<close>. \<open>cached\<close> is the view's state \<open>courses\<close>, the course list as last fetched.
  The two fetches the source starts at the end without awaiting them are the commands
  \<open>fetchCourses\<close> and \<open>fetchEnrollments\<close> below; they refresh the cached lists for later
  commands.
\<close>

definition enrollInCourse ::
  "faults \<Rightarrow> user option \<Rightarrow> course list \<Rightarrow> string \<Rightarrow> world \<Rightarrow> outcome \<times> world" where
  "enrollInCourse f user cached courseId w =
     (case user of
        None \<Rightarrow> (NotLoggedIn, toast_error ''You must be logged in to enroll in a course'' w)
      | Some u \<Rightarrow>
          (case ensureStudentProfile f user w of
             (False, w1) \<Rightarrow>
               (ProfileError, toast_error ''Could not create/verify your student profile'' w1)
           | (True, w1) \<Rightarrow>
               let course = find (\<lambda>c. c_id c = courseId) cached in
               if (case course of
                     None \<Rightarrow> False
                   | Some c \<Rightarrow> current_enrollment c \<ge> max_capacity c)
               then (CapacityExceeded, toast_error ''This course is already full'' w1)
               else
                 (case enrollments_insert f
                         \<lparr>course_id = courseId, student_id = user_id u,
                          enrollment_status = ''enrolled''\<rparr> w1 of
                    (Some enrollmentError, w2) \<Rightarrow>
                      if enrollmentError = ''23505''
                      then (DuplicateEnrollment,
                            toast_error ''You are already enrolled in this course'' w2)
                      else (StoreError,
                            toast_error ''Failed to enroll in course''
                              (console_error ''Error enrolling in course:'' w2))
                  | (None, w2) \<Rightarrow>
                      (case courses_update_enrollment f courseId
                              (case course of
                                 None \<Rightarrow> 1
                               | Some c \<Rightarrow> current_enrollment c + 1) w2 of
                         (updateError, w3) \<Rightarrow>
                           let w4 = (case updateError of
                                       None \<Rightarrow> w3
                                     | Some e \<Rightarrow>
                                         console_error
                                           ''Error updating course enrollment count:'' w3)
                           in (Success,
                               toast_success ''Successfully enrolled in course''
                                 (snd (logs_insert f
                                         \<lparr>action = ''student_enrolled'',
                                          performed_by = Some (user_id u),
                                          details = [(''course_id'', JStr courseId),
                                                     (''student_id'', JStr (user_id u))]\<rparr>
                                         w4)))))))"

text \<open>\<open>dropCourse\<close>.\<close>

definition dropCourse ::
  "faults \<Rightarrow> user option \<Rightarrow> course list \<Rightarrow> string \<Rightarrow> world \<Rightarrow> outcome \<times> world" where
  "dropCourse f user cached courseId w =
     (case user of
        None \<Rightarrow> (NotLoggedIn, toast_error ''You must be logged in to drop a course'' w)
      | Some u \<Rightarrow>
          (case enrollments_delete f courseId (user_id u) w of
             (Some enrollmentError, w1) \<Rightarrow>
               (StoreError,
                toast_error ''Failed to drop course''
                  (console_error ''Error dropping course:'' w1))
           | (None, w1) \<Rightarrow>
               let course = find (\<lambda>c. c_id c = courseId) cached in
               (case courses_update_enrollment f courseId
                       (case course of
                          None \<Rightarrow> 0
                        | Some c \<Rightarrow>
                            if current_enrollment c > 0 then current_enrollment c - 1 else 0)
                       w1 of
                  (updateError, w2) \<Rightarrow>
                    let w3 = (case updateError of
                                None \<Rightarrow> w2
                              | Some e \<Rightarrow>
                                  console_error ''Error updating course enrollment count:'' w2)
                    in (Success,
                        toast_success ''Successfully dropped course''
                          (snd (logs_insert f
                                  \<lparr>action = ''student_dropped'',
                                   performed_by = Some (user_id u),
                                   details = [(''course_id'', JStr courseId),
                                              (''student_id'', JStr (user_id u))]\<rparr>
                                  w3))))))"


section \<open>The demo shadow store\<close>

text \<open>
  \<open>isDemoUser\<close>, the same function in AdminDashboard (src/unnamed/part_000),
  EditCourseModal (src/unnamed/part_001) and AddCourseModal: the three sentinel identities.
\<close>

definition isDemoUser :: "string \<Rightarrow> bool" where
  "isDemoUser userId =
     (userId = ''11111111-2222-3333-4444-555555555555'' \<or>
      userId = ''12345678-1234-1234-1234-123456789012'' \<or>
      userId = ''87654321-4321-4321-4321-210987654321'')"

text \<open>\<open>user?.id || ''\<close> and \<open>user?.name\<close>.\<close>

definition opt_user_id :: "user option \<Rightarrow> string" where
  "opt_user_id user = (case user of None \<Rightarrow> [] | Some u \<Rightarrow> user_id u)"

definition opt_user_name :: "user option \<Rightarrow> string" where
  "opt_user_name user = (case user of None \<Rightarrow> [] | Some u \<Rightarrow> opt_str (user_name u))"

text \<open>
  What the clock and the random generator give a command: \<open>new Date().toISOString()\<close>,
  \<open>new Date().getTime()\<close> in decimal, and the two past instants of the sample log entries.
\<close>

record clock =
  iso :: string
  millis :: string
  iso_day_ago :: string
  iso_half_day_ago :: string

text \<open>\<open>JSON.parse(localStorage.getItem(key) || '[]')\<close> and \<open>localStorage.setItem\<close>.\<close>

definition getItem_demoCourses :: "world \<Rightarrow> course list \<times> world" where
  "getItem_demoCourses w =
     ((case demoCourses (ls w) of None \<Rightarrow> [] | Some cs \<Rightarrow> cs),
      accessed (LsGet ''demoCourses'') w)"

definition setItem_demoCourses :: "course list \<Rightarrow> world \<Rightarrow> world" where
  "setItem_demoCourses cs w =
     accessed (LsSet ''demoCourses'') (w\<lparr>ls := (ls w)\<lparr>demoCourses := Some cs\<rparr>\<rparr>)"

definition getItem_demoLogs :: "world \<Rightarrow> shown_log list \<times> world" where
  "getItem_demoLogs w =
     ((case demoLogs (ls w) of None \<Rightarrow> [] | Some l \<Rightarrow> l),
      accessed (LsGet ''demoLogs'') w)"

definition setItem_demoLogs :: "shown_log list \<Rightarrow> world \<Rightarrow> world" where
  "setItem_demoLogs l w =
     accessed (LsSet ''demoLogs'') (w\<lparr>ls := (ls w)\<lparr>demoLogs := Some l\<rparr>\<rparr>)"

definition demo_seed_courses :: "clock \<Rightarrow> course list" where
  "demo_seed_courses clk =
     [\<lparr>c_id = ''course-1'', c_name = ''Introduction to Programming'', c_code = ''CS101'',
       c_department = ''Computer Science'', c_instructor = ''Demo Instructor'',
       c_instructor_id = ''87654321-4321-4321-4321-210987654321'',
       max_capacity = 30, current_enrollment = 15, c_created_at = iso clk\<rparr>,
      \<lparr>c_id = ''course-2'', c_name = ''Data Structures and Algorithms'', c_code = ''CS201'',
       c_department = ''Computer Science'', c_instructor = ''Demo Instructor'',
       c_instructor_id = ''87654321-4321-4321-4321-210987654321'',
       max_capacity = 25, current_enrollment = 18, c_created_at = iso clk\<rparr>]"

definition getDemoCoursesFromStorage :: "clock \<Rightarrow> world \<Rightarrow> course list \<times> world" where
  "getDemoCoursesFromStorage clk w =
     (case getItem_demoCourses w of
        (cs, w1) \<Rightarrow>
          if length cs = 0
          then (demo_seed_courses clk, setItem_demoCourses (demo_seed_courses clk) w1)
          else (cs, w1))"

text \<open>\<open>addDemoLog\<close>: the entry goes first, and only the 20 most recent entries are kept.\<close>

definition addDemoLog :: "shown_log \<Rightarrow> world \<Rightarrow> world" where
  "addDemoLog l w =
     (case getItem_demoLogs w of
        (stored, w1) \<Rightarrow> setItem_demoLogs (take 20 (l # stored)) w1)"

definition removeCourseFromDemoStorage :: "clock \<Rightarrow> user option \<Rightarrow> string \<Rightarrow> world \<Rightarrow> world" where
  "removeCourseFromDemoStorage clk user courseId w =
     (case getItem_demoCourses w of
        (cs, w1) \<Rightarrow>
          addDemoLog
            \<lparr>action = ''course_deleted'', performed_by = Some (opt_user_id user),
             details = [(''course_id'', JStr courseId)],
             l_id = ''log-'' @ millis clk, l_created_at = iso clk,
             l_user_name = js_or (opt_user_name user) ''Demo Admin'', l_user_role = ''admin''\<rparr>
            (setItem_demoCourses (filter (\<lambda>c. c_id c \<noteq> courseId) cs) w1))"

definition demo_seed_logs :: "clock \<Rightarrow> shown_log list" where
  "demo_seed_logs clk =
     [\<lparr>action = ''course_created'',
       performed_by = Some ''11111111-2222-3333-4444-555555555555'',
       details = [(''course_name'', JStr ''Introduction to Programming''),
                  (''course_id'', JStr ''course-1'')],
       l_id = ''log-1'', l_created_at = iso_day_ago clk,
       l_user_name = ''Demo Admin'', l_user_role = ''admin''\<rparr>,
      \<lparr>action = ''course_created'',
       performed_by = Some ''87654321-4321-4321-4321-210987654321'',
       details = [(''course_name'', JStr ''Data Structures and Algorithms''),
                  (''course_id'', JStr ''course-2'')],
       l_id = ''log-2'', l_created_at = iso_half_day_ago clk,
       l_user_name = ''Demo Instructor'', l_user_role = ''instructor''\<rparr>]"

definition generateDemoLogs :: "clock \<Rightarrow> world \<Rightarrow> shown_log list \<times> world" where
  "generateDemoLogs clk w =
     (case getItem_demoLogs w of
        (storedLogs, w1) \<Rightarrow>
          if length storedLogs > 0 then (storedLogs, w1)
          else (demo_seed_logs clk, setItem_demoLogs (demo_seed_logs clk) w1))"

text \<open>\<open>saveCourseToDemoStorage\<close> (AddCourseModal).\<close>

definition saveCourseToDemoStorage :: "course \<Rightarrow> world \<Rightarrow> world" where
  "saveCourseToDemoStorage c w =
     (case getItem_demoCourses w of
        (existingCourses, w1) \<Rightarrow> setItem_demoCourses (existingCourses @ [c]) w1)"

text \<open>
  \<open>updateCourseInDemoStorage\<close> (EditCourseModal); \<open>updates\<close> is the spread
  \<open>{ ...c, ...updates }\<close> as a function on rows.
\<close>

definition updateCourseInDemoStorage :: "string \<Rightarrow> (course \<Rightarrow> course) \<Rightarrow> world \<Rightarrow> world" where
  "updateCourseInDemoStorage courseId updates w =
     (case getItem_demoCourses w of
        (existingCourses, w1) \<Rightarrow>
          setItem_demoCourses
            (map (\<lambda>c. if c_id c = courseId then updates c else c) existingCourses) w1)"


section \<open>Requests on courses and logs\<close>

text \<open>
  \<^verbatim>\<open>supabase.from('courses').select('*').order('created_at', { ascending: false })\<close>
  The rows come in the table's order: the order of the answer is not modelled.
\<close>

definition courses_select :: "faults \<Rightarrow> world \<Rightarrow> (string + course list) \<times> world" where
  "courses_select f w =
     ((case f Courses Select of Some c \<Rightarrow> Inl c | None \<Rightarrow> Inr (courses (db w))),
      accessed (Db Courses Select) w)"

text \<open>\<^verbatim>\<open>... .select('*').eq('instructor_id', uid).order(...)\<close>\<close>

definition courses_select_instructor ::
  "faults \<Rightarrow> string \<Rightarrow> world \<Rightarrow> (string + course list) \<times> world" where
  "courses_select_instructor f uid w =
     ((case f Courses Select of
         Some c \<Rightarrow> Inl c
       | None \<Rightarrow> Inr (filter (\<lambda>c. c_instructor_id c = uid) (courses (db w)))),
      accessed (Db Courses Select) w)"

text \<open>
  \<^verbatim>\<open>supabase.from('enrollments').select(`*, courses (*)`).eq('student_id', uid).order(...)\<close>
  One request; each row comes with the course it references, if that exists.
\<close>

definition enrollments_select_student ::
  "faults \<Rightarrow> string \<Rightarrow> world \<Rightarrow> (string + (enrollment \<times> course option) list) \<times> world" where
  "enrollments_select_student f uid w =
     ((case f Enrollments Select of
         Some c \<Rightarrow> Inl c
       | None \<Rightarrow>
           Inr (map (\<lambda>e. (e, find (\<lambda>c. c_id c = course_id e) (courses (db w))))
                  (filter (\<lambda>e. student_id e = uid) (enrollments (db w))))),
      accessed (Db Enrollments Select) w)"

text \<open>
  \<^verbatim>\<open>supabase.from('enrollments').select(`*, students (*)`)\<close>, for all rows or with
  \<^verbatim>\<open>.eq('course_id', cid)\<close>. One request; each row comes with the student it references,
  if that exists.
\<close>

definition enrollments_select_all ::
  "faults \<Rightarrow> world \<Rightarrow> (string + (enrollment \<times> student option) list) \<times> world" where
  "enrollments_select_all f w =
     ((case f Enrollments Select of
         Some c \<Rightarrow> Inl c
       | None \<Rightarrow>
           Inr (map (\<lambda>e. (e, find (\<lambda>s. s_id s = student_id e) (students (db w))))
                  (enrollments (db w)))),
      accessed (Db Enrollments Select) w)"

definition enrollments_select_course ::
  "faults \<Rightarrow> string \<Rightarrow> world \<Rightarrow> (string + (enrollment \<times> student option) list) \<times> world" where
  "enrollments_select_course f cid w =
     ((case f Enrollments Select of
         Some c \<Rightarrow> Inl c
       | None \<Rightarrow>
           Inr (map (\<lambda>e. (e, find (\<lambda>s. s_id s = student_id e) (students (db w))))
                  (filter (\<lambda>e. course_id e = cid) (enrollments (db w))))),
      accessed (Db Enrollments Select) w)"

text \<open>\<^verbatim>\<open>supabase.from('instructors').select('id, name, department')\<close>\<close>

definition instructors_select :: "faults \<Rightarrow> world \<Rightarrow> (string + instructor list) \<times> world" where
  "instructors_select f w =
     ((case f Instructors Select of Some c \<Rightarrow> Inl c | None \<Rightarrow> Inr (instructors (db w))),
      accessed (Db Instructors Select) w)"

text \<open>
  \<^verbatim>\<open>supabase.from('logs').select('*').order('created_at', { ascending: false }).limit(10)\<close>
  Log rows are stamped at insertion, so the newest are the last inserted.
\<close>

definition logs_select :: "faults \<Rightarrow> world \<Rightarrow> (string + log list) \<times> world" where
  "logs_select f w =
     ((case f Logs Select of Some c \<Rightarrow> Inl c | None \<Rightarrow> Inr (take 10 (rev (logs (db w))))),
      accessed (Db Logs Select) w)"

text \<open>
  \<^verbatim>\<open>supabase.from('courses').insert([row]).select().single()\<close>
  The id and the creation time of the row are the database's; they are given to the model.
\<close>

definition courses_insert :: "faults \<Rightarrow> course \<Rightarrow> world \<Rightarrow> string option \<times> world" where
  "courses_insert f c w =
     (let w' = accessed (Db Courses Insert) w in
      case f Courses Insert of
        Some e \<Rightarrow> (Some e, w')
      | None \<Rightarrow> (None, w'\<lparr>db := (db w')\<lparr>courses := courses (db w') @ [c]\<rparr>\<rparr>))"

text \<open>
  \<^verbatim>\<open>supabase.from('courses').update(updates).eq('id', cid).select().single()\<close>
  With \<open>.single()\<close> the request succeeds only when exactly one row matches; otherwise it
  answers \<open>PGRST116\<close> and no row is changed.
\<close>

definition courses_update_single ::
  "faults \<Rightarrow> string \<Rightarrow> (course \<Rightarrow> course) \<Rightarrow> world \<Rightarrow> string option \<times> world" where
  "courses_update_single f cid updates w =
     (let w' = accessed (Db Courses Update) w in
      case f Courses Update of
        Some e \<Rightarrow> (Some e, w')
      | None \<Rightarrow>
          if length (filter (\<lambda>c. c_id c = cid) (courses (db w))) = 1
          then (None, w'\<lparr>db := (db w')\<lparr>courses :=
                  map (\<lambda>c. if c_id c = cid then updates c else c) (courses (db w'))\<rparr>\<rparr>)
          else (Some ''PGRST116'', w'))"

text \<open>
  \<^verbatim>\<open>supabase.from('courses').delete().eq('id', cid)\<close>
  What becomes of the Enrollment rows of a deleted course is not decided by the sources
  (the spec leaves it open): \<open>cascade\<close> says whether the store deletes them too.
\<close>

definition courses_delete ::
  "faults \<Rightarrow> bool \<Rightarrow> string \<Rightarrow> world \<Rightarrow> string option \<times> world" where
  "courses_delete f cascade cid w =
     (let w' = accessed (Db Courses Delete) w in
      case f Courses Delete of
        Some e \<Rightarrow> (Some e, w')
      | None \<Rightarrow>
          (None, w'\<lparr>db := (db w')
             \<lparr>courses := filter (\<lambda>c. c_id c \<noteq> cid) (courses (db w')),
              enrollments :=
                (if cascade then filter (\<lambda>e. course_id e \<noteq> cid) (enrollments (db w'))
                 else enrollments (db w'))\<rparr>\<rparr>))"


section \<open>Reads of the student and instructor views\<close>

text \<open>
  \<open>fetchCourses\<close> and \<open>fetchEnrollments\<close> of StudentDashboard, \<open>fetchInstructorCourses\<close>,
  \<open>fetchAllEnrollments\<close> and \<open>viewCourseStudents\<close> of InstructorDashboard. The result is
  the new value of the cached list, \<open>None\<close> when the view keeps the old one.
\<close>

definition student_fetchCourses :: "faults \<Rightarrow> world \<Rightarrow> course list option \<times> world" where
  "student_fetchCourses f w =
     (case courses_select f w of
        (Inl error, w1) \<Rightarrow>
          (None, toast_error ''Failed to load courses''
                   (console_error ''Error fetching courses:'' w1))
      | (Inr data, w1) \<Rightarrow> (Some data, w1))"

definition fetchEnrollments ::
  "faults \<Rightarrow> user option \<Rightarrow> world \<Rightarrow> (enrollment \<times> course option) list option \<times> world" where
  "fetchEnrollments f user w =
     (case user of
        None \<Rightarrow> (None, w)
      | Some u \<Rightarrow>
          (case enrollments_select_student f (user_id u) w of
             (Inl error, w1) \<Rightarrow>
               (None, toast_error ''Failed to load your enrollments''
                        (console_error ''Error fetching enrollments:'' w1))
           | (Inr data, w1) \<Rightarrow> (Some data, w1)))"

definition fetchInstructorCourses ::
  "faults \<Rightarrow> user option \<Rightarrow> world \<Rightarrow> course list option \<times> world" where
  "fetchInstructorCourses f user w =
     (case user of
        None \<Rightarrow> (None, w)
      | Some u \<Rightarrow>
          (case courses_select_instructor f (user_id u) w of
             (Inl error, w1) \<Rightarrow>
               (None, toast_error ''Failed to load courses''
                        (console_error ''Error fetching courses:'' w1))
           | (Inr data, w1) \<Rightarrow> (Some data, w1)))"

definition fetchAllEnrollments ::
  "faults \<Rightarrow> world \<Rightarrow> (enrollment \<times> student option) list option \<times> world" where
  "fetchAllEnrollments f w =
     (case enrollments_select_all f w of
        (Inl error, w1) \<Rightarrow> (None, console_error ''Error fetching enrollments:'' w1)
      | (Inr data, w1) \<Rightarrow> (Some data, w1))"

text \<open>The result is the list \<open>data.map(enrollment => enrollment.students)\<close>.\<close>

definition viewCourseStudents ::
  "faults \<Rightarrow> string \<Rightarrow> world \<Rightarrow> student option list option \<times> world" where
  "viewCourseStudents f courseId w =
     (case enrollments_select_course f courseId w of
        (Inl error, w1) \<Rightarrow>
          (None, toast_error ''Failed to load enrolled students''
                   (console_error ''Error fetching course students:'' w1))
      | (Inr data, w1) \<Rightarrow> (Some (map snd data), w1))"


section \<open>The admin view (src/unnamed/part_000, AdminDashboard)\<close>

definition admin_fetchCourses ::
  "clock \<Rightarrow> faults \<Rightarrow> user option \<Rightarrow> world \<Rightarrow> course list option \<times> world" where
  "admin_fetchCourses clk f user w =
     (if isDemoUser (opt_user_id user)
      then (case getDemoCoursesFromStorage clk w of (cs, w1) \<Rightarrow> (Some cs, w1))
      else
        (case courses_select f w of
           (Inl error, w1) \<Rightarrow>
             (None, toast_error ''Failed to load courses''
                      (console_error ''Error fetching courses:'' w1))
         | (Inr data, w1) \<Rightarrow> (Some data, w1)))"

text \<open>
  The lookup of the performing user's name and role, one request per log row that has a
  \<open>performed_by\<close>.
\<close>

fun logsWithUserInfo :: "faults \<Rightarrow> log list \<Rightarrow> world \<Rightarrow> (log \<times> string \<times> string) list \<times> world" where
  "logsWithUserInfo f [] w = ([], w)"
| "logsWithUserInfo f (l # rest) w =
     (case (if opt_str (performed_by l) = [] then (Inl [], w)
            else user_profiles_select_single f (opt_str (performed_by l)) w) of
        (r, w1) \<Rightarrow>
          (case logsWithUserInfo f rest w1 of
             (shown, w2) \<Rightarrow>
               ((l, case r of
                      Inl userError \<Rightarrow> (''Unknown User'', ''unknown'')
                    | Inr userData \<Rightarrow> (p_name userData, p_role userData)) # shown,
                w2)))"

datatype shown_logs = StoreLogs "(log \<times> string \<times> string) list" | DemoLogs "shown_log list"

text \<open>\<open>fetchLogs\<close>: the request to the store comes first, also for a demo user.\<close>

definition fetchLogs ::
  "clock \<Rightarrow> faults \<Rightarrow> user option \<Rightarrow> world \<Rightarrow> shown_logs option \<times> world" where
  "fetchLogs clk f user w =
     (case logs_select f w of
        (Inl error, w1) \<Rightarrow> (None, console_error ''Error fetching logs:'' w1)
      | (Inr data, w1) \<Rightarrow>
          if isDemoUser (opt_user_id user)
          then (case generateDemoLogs clk w1 of (dl, w2) \<Rightarrow> (Some (DemoLogs dl), w2))
          else (case logsWithUserInfo f data w1 of
                  (shown, w2) \<Rightarrow> (Some (StoreLogs shown), w2)))"

text \<open>
  \<open>deleteCourse\<close>. \<open>confirmed\<close> is the answer to the \<open>confirm\<close> dialog, \<open>auth_user\<close> the id that
  \<open>supabase.auth.getUser()\<close> gives. The error toast ends with the store's message, which
  is not modelled.
\<close>

definition deleteCourse ::
  "clock \<Rightarrow> faults \<Rightarrow> bool \<Rightarrow> bool \<Rightarrow> user option \<Rightarrow> string option \<Rightarrow> string \<Rightarrow> world \<Rightarrow> world" where
  "deleteCourse clk f cascade confirmed user auth_user courseId w =
     (if \<not> confirmed then w
      else if isDemoUser (opt_user_id user)
      then toast_success ''Course deleted successfully''
             (removeCourseFromDemoStorage clk user courseId w)
      else
        (case courses_delete f cascade courseId w of
           (Some error, w1) \<Rightarrow>
             toast_error ''Failed to delete course: ''
               (console_error ''Error deleting course:'' w1)
         | (None, w1) \<Rightarrow>
             toast_success ''Course deleted successfully''
               (snd (logs_insert f
                       \<lparr>action = ''course_deleted'', performed_by = auth_user,
                        details = [(''course_id'', JStr courseId)]\<rparr> w1))))"


section \<open>Creating and editing a course (AddCourseModal, EditCourseModal)\<close>

text \<open>The fields of the form of the two modals.\<close>

record course_form =
  f_name :: string
  f_code :: string
  f_department :: string
  f_maxCapacity :: int
  f_selectedInstructorId :: string

definition selected_instructor_name :: "instructor list \<Rightarrow> string \<Rightarrow> string" where
  "selected_instructor_name instrs instructorId =
     (case find (\<lambda>i. i_id i = instructorId) instrs of
        None \<Rightarrow> ''Unknown Instructor''
      | Some i \<Rightarrow> js_or (i_name i) ''Unknown Instructor'')"

text \<open>
  \<open>fetchInstructors\<close> of AddCourseModal and the effect that runs when the modal opens
  (\<open>useEffect\<close>): an instructor gets its own id selected, for every other user the
  instructors are fetched from the store. The result is the new instructor list and the
  new selected instructor id, \<open>None\<close> where the modal keeps the old value.
\<close>

definition add_fetchInstructors ::
  "faults \<Rightarrow> world \<Rightarrow> (instructor list option \<times> string option) \<times> world" where
  "add_fetchInstructors f w =
     (case instructors_select f w of
        (Inl error, w1) \<Rightarrow>
          ((None, None), toast_error ''Failed to load instructors''
                           (console_error ''Error fetching instructors:'' w1))
      | (Inr data, w1) \<Rightarrow>
          (case data of
             [] \<Rightarrow>
               ((None, None),
                toast_error ''No instructors available. Please add instructors first.'' w1)
           | i # rest \<Rightarrow> ((Some data, Some (i_id i)), w1)))"

definition addCourseModal_effect ::
  "faults \<Rightarrow> user option \<Rightarrow> world \<Rightarrow> (instructor list option \<times> string option) \<times> world" where
  "addCourseModal_effect f user w =
     (if (case user of None \<Rightarrow> False | Some u \<Rightarrow> user_role u = Instructor)
      then ((None, Some (opt_user_id user)), w)
      else add_fetchInstructors f w)"

text \<open>
  \<open>fetchInstructors\<close> of EditCourseModal and the effect of opening that modal: only for
  an admin are the instructors fetched. With no instructor row in the store a demo user
  gets a fixed list of three; that list is in the code, not in \<open>localStorage\<close>.
\<close>

definition demo_instructors :: "instructor list" where
  "demo_instructors =
     [\<lparr>i_id = ''87654321-4321-4321-4321-210987654321'', i_name = ''Demo Instructor'',
       i_department = ''Computer Science''\<rparr>,
      \<lparr>i_id = ''instructor-2'', i_name = ''Jane Smith'', i_department = ''Mathematics''\<rparr>,
      \<lparr>i_id = ''instructor-3'', i_name = ''Bob Johnson'', i_department = ''Physics''\<rparr>]"

definition edit_fetchInstructors ::
  "faults \<Rightarrow> user option \<Rightarrow> string \<Rightarrow> world \<Rightarrow>
     (instructor list option \<times> string option) \<times> world" where
  "edit_fetchInstructors f user selectedInstructorId w =
     (case instructors_select f w of
        (Inl error, w1) \<Rightarrow>
          ((None, None), toast_error ''Failed to load instructors''
                           (console_error ''Error fetching instructors:'' w1))
      | (Inr data, w1) \<Rightarrow>
          (case data of
             [] \<Rightarrow>
               if isDemoUser (opt_user_id user) then ((Some demo_instructors, None), w1)
               else ((None, None), toast_error ''No instructors available'' w1)
           | i # rest \<Rightarrow>
               ((Some data, if selectedInstructorId = [] then Some (i_id i) else None), w1)))"

definition editCourseModal_effect ::
  "faults \<Rightarrow> user option \<Rightarrow> string \<Rightarrow> world \<Rightarrow>
     (instructor list option \<times> string option) \<times> world" where
  "editCourseModal_effect f user selectedInstructorId w =
     (if (case user of None \<Rightarrow> False | Some u \<Rightarrow> user_role u = Admin)
      then edit_fetchInstructors f user selectedInstructorId w
      else ((None, None), w))"

text \<open>
  \<open>handleSubmit\<close> of AddCourseModal. \<open>new_id\<close> is the id of the new row: \<open>generateUUID()\<close> for
  a demo user, the database's otherwise. The success toast of a demo user comes from a
  timer 800 ms later.
\<close>

definition addCourse ::
  "clock \<Rightarrow> string \<Rightarrow> faults \<Rightarrow> user option \<Rightarrow> instructor list \<Rightarrow> course_form \<Rightarrow> world \<Rightarrow> world" where
  "addCourse clk new_id f user instrs form w =
     (case user of
        None \<Rightarrow> toast_error ''You must be logged in to add a course'' w
      | Some u \<Rightarrow>
          let instructorId =
                (if user_role u = Instructor then user_id u else f_selectedInstructorId form)
          in
          if instructorId = [] then toast_error ''Please select an instructor'' w
          else
            let instructorName =
                  (if user_role u = Admin then selected_instructor_name instrs instructorId
                   else js_or (opt_str (user_name u)) ''Unknown Instructor'');
                row = \<lparr>c_id = new_id, c_name = f_name form, c_code = f_code form,
                       c_department = f_department form, c_instructor = instructorName,
                       c_instructor_id = instructorId, max_capacity = f_maxCapacity form,
                       current_enrollment = 0, c_created_at = iso clk\<rparr>
            in
            if isDemoUser (user_id u)
            then toast_success ''Course added successfully'' (saveCourseToDemoStorage row w)
            else
              (case courses_insert f row w of
                 (Some error, w1) \<Rightarrow>
                   toast_error ''Error adding course: ''
                     (console_error ''Error adding course:'' w1)
               | (None, w1) \<Rightarrow>
                   toast_success ''Course added successfully''
                     (snd (logs_insert f
                             \<lparr>action = ''course_created'', performed_by = Some (user_id u),
                              details = [(''course_id'', JStr new_id),
                                         (''course_name'', JStr (f_name form)),
                                         (''instructor_id'', JStr instructorId)]\<rparr> w1))))"

text \<open>\<open>handleSubmit\<close> of EditCourseModal, for the course \<open>course\<close> being edited.\<close>

definition editCourse ::
  "faults \<Rightarrow> user option \<Rightarrow> instructor list \<Rightarrow> course \<Rightarrow> course_form \<Rightarrow> world \<Rightarrow> world" where
  "editCourse f user instrs course form w =
     (case user of
        None \<Rightarrow> toast_error ''You must be logged in to update a course'' w
      | Some u \<Rightarrow>
          let instructorId =
                (if user_role u = Instructor then c_instructor_id course
                 else f_selectedInstructorId form)
          in
          if instructorId = [] then toast_error ''Please select an instructor'' w
          else
            let instructorName =
                  (if user_role u = Admin \<and> instructorId \<noteq> c_instructor_id course
                   then selected_instructor_name instrs instructorId
                   else c_instructor course);
                updates = (\<lambda>c. c\<lparr>c_name := f_name form, c_code := f_code form,
                                c_department := f_department form,
                                c_instructor_id := instructorId,
                                c_instructor := instructorName,
                                max_capacity := f_maxCapacity form\<rparr>)
            in
            if isDemoUser (user_id u)
            then toast_success ''Course updated successfully''
                   (updateCourseInDemoStorage (c_id course) updates w)
            else
              (case courses_update_single f (c_id course) updates w of
                 (Some error, w1) \<Rightarrow>
                   toast_error ''Error updating course: ''
                     (console_error ''Error updating course:'' w1)
               | (None, w1) \<Rightarrow>
                   toast_success ''Course updated successfully''
                     (snd (logs_insert f
                             \<lparr>action = ''course_updated'', performed_by = Some (user_id u),
                              details = [(''course_id'', JStr (c_id course)),
                                         (''previous_name'', JStr (c_name course)),
                                         (''new_name'', JStr (f_name form)),
                                         (''instructor_changed'',
                                          JBool (instructorId \<noteq> c_instructor_id course))]\<rparr>
                             w1))))"


section \<open>Commands and runs\<close>

text \<open>
  The commands of the views, each with what the view gives it: the signed-in user, the
  cached lists, the form, the answers of the environment.
\<close>

datatype command =
    Enroll faults "user option" "course list" string
  | Drop faults "user option" "course list" string
  | AddCourse clock string faults "user option" "instructor list" course_form
  | EditCourse faults "user option" "instructor list" course course_form
  | DeleteCourse clock faults bool bool "user option" "string option" string
  | AdminFetchCourses clock faults "user option"
  | AdminFetchLogs clock faults "user option"
  | StudentFetchCourses faults "user option"
  | StudentFetchEnrollments faults "user option"
  | InstructorFetchCourses faults "user option"
  | FetchAllEnrollments faults "user option"
  | ViewCourseStudents faults "user option" string
  | OpenAddCourseModal faults "user option"
  | OpenEditCourseModal faults "user option" string

fun step :: "command \<Rightarrow> world \<Rightarrow> world" where
  "step (Enroll f user cached cid) w = snd (enrollInCourse f user cached cid w)"
| "step (Drop f user cached cid) w = snd (dropCourse f user cached cid w)"
| "step (AddCourse clk new_id f user instrs form) w =
     addCourse clk new_id f user instrs form w"
| "step (EditCourse f user instrs course form) w =
     editCourse f user instrs course form w"
| "step (DeleteCourse clk f cascade confirmed user auth_user cid) w =
     deleteCourse clk f cascade confirmed user auth_user cid w"
| "step (AdminFetchCourses clk f user) w = snd (admin_fetchCourses clk f user w)"
| "step (AdminFetchLogs clk f user) w = snd (fetchLogs clk f user w)"
| "step (StudentFetchCourses f user) w = snd (student_fetchCourses f w)"
| "step (StudentFetchEnrollments f user) w = snd (fetchEnrollments f user w)"
| "step (InstructorFetchCourses f user) w = snd (fetchInstructorCourses f user w)"
| "step (FetchAllEnrollments f user) w = snd (fetchAllEnrollments f w)"
| "step (ViewCourseStudents f user cid) w = snd (viewCourseStudents f cid w)"
| "step (OpenAddCourseModal f user) w = snd (addCourseModal_effect f user w)"
| "step (OpenEditCourseModal f user selected) w = snd (editCourseModal_effect f user selected w)"

text \<open>The signed-in user of the view that issues the command.\<close>

fun issuer :: "command \<Rightarrow> user option" where
  "issuer (Enroll f user cached cid) = user"
| "issuer (Drop f user cached cid) = user"
| "issuer (AddCourse clk new_id f user instrs form) = user"
| "issuer (EditCourse f user instrs course form) = user"
| "issuer (DeleteCourse clk f cascade confirmed user auth_user cid) = user"
| "issuer (AdminFetchCourses clk f user) = user"
| "issuer (AdminFetchLogs clk f user) = user"
| "issuer (StudentFetchCourses f user) = user"
| "issuer (StudentFetchEnrollments f user) = user"
| "issuer (InstructorFetchCourses f user) = user"
| "issuer (FetchAllEnrollments f user) = user"
| "issuer (ViewCourseStudents f user cid) = user"
| "issuer (OpenAddCourseModal f user) = user"
| "issuer (OpenEditCourseModal f user selected) = user"

fun run :: "command list \<Rightarrow> world \<Rightarrow> world" where
  "run [] w = w"
| "run (c # cs) w = run cs (step c w)"

text \<open>The parts of a trace: accesses to the store, to \<open>localStorage\<close>, and writes.\<close>

fun is_db :: "access \<Rightarrow> bool" where
  "is_db (Db t v) = True"
| "is_db (LsGet k) = False"
| "is_db (LsSet k) = False"

fun is_ls :: "access \<Rightarrow> bool" where
  "is_ls (Db t v) = False"
| "is_ls (LsGet k) = True"
| "is_ls (LsSet k) = True"

fun is_write :: "access \<Rightarrow> bool" where
  "is_write (Db t Select) = False"
| "is_write (Db t v) = True"
| "is_write (LsGet k) = False"
| "is_write (LsSet k) = True"

text \<open>The stored enrollment counter of a course, if the course has a row.\<close>

definition stored_enrollment :: "store \<Rightarrow> string \<Rightarrow> int option" where
  "stored_enrollment s cid = map_option current_enrollment (find (\<lambda>c. c_id c = cid) (courses s))"

text \<open>At most one Enrollment row per (course, student) pair.\<close>

definition unique_enrollments :: "store \<Rightarrow> bool" where
  "unique_enrollments s = distinct (map (\<lambda>e. (course_id e, student_id e)) (enrollments s))"


section \<open>Sample states\<close>

definition alice :: user where
  "alice = \<lparr>user_id = ''alice'', user_email = ''alice@example.com'', user_role = Student,
            user_name = Some ''Alice''\<rparr>"



definition algebra :: course where
  "algebra = \<lparr>c_id = ''c1'', c_name = ''Algebra'', c_code = ''M101'', c_department = ''Maths'',
              c_instructor = ''Ines'', c_instructor_id = ''ines'', max_capacity = 5,
              current_enrollment = 5, c_created_at = ''2025-03-11''\<rparr>"

definition student_row :: "user \<Rightarrow> student" where
  "student_row u = \<lparr>s_id = user_id u, s_name = opt_str (user_name u), s_email = user_email u,
                    academic_status = ''active''\<rparr>"

definition profile_row :: "user \<Rightarrow> user_profile" where
  "profile_row u = \<lparr>p_id = user_id u, p_email = user_email u, p_name = opt_str (user_name u),
                    p_role = ''student''\<rparr>"

definition world_of :: "store \<Rightarrow> world" where
  "world_of s = \<lparr>db = s, ls = \<lparr>demoCourses = None, demoLogs = None\<rparr>, console = [],
                 toasts = [], trace = []\<rparr>"

text \<open>A store with one course, full, and the student Alice, who is not enrolled.\<close>

definition store_full :: store where
  "store_full = \<lparr>students = [student_row alice], user_profiles = [profile_row alice],
                 instructors = [], courses = [algebra], enrollments = [], logs = []\<rparr>"

text \<open>The same course with two seats taken, and the same store with Alice enrolled.\<close>

definition algebra2 :: course where
  "algebra2 = algebra\<lparr>current_enrollment := 2\<rparr>"

definition store_open :: store where
  "store_open = store_full\<lparr>courses := [algebra2]\<rparr>"

definition store_enrolled :: store where
  "store_enrolled =
     store_open\<lparr>enrollments := [\<lparr>course_id = ''c1'', student_id = ''alice'',
                                  enrollment_status = ''enrolled''\<rparr>]\<rparr>"

text \<open>A store where Alice has a Profile and no Student row yet.\<close>

definition store_new_student :: store where
  "store_new_student = store_full\<lparr>students := []\<rparr>"

text \<open>
  Stores that answer one kind of request with a failure (\<open>57014\<close>, a cancelled statement):
  the counter update, the enrollment insert, the lookup of the Student row.
\<close>

definition update_fails :: faults where
  "update_fails t v = (if t = Courses \<and> v = Update then Some ''57014'' else None)"

definition insert_fails :: faults where
  "insert_fails t v = (if t = Enrollments \<and> v = Insert then Some ''57014'' else None)"

definition lookup_fails :: faults where
  "lookup_fails t v = (if t = Students \<and> v = Select then Some ''57014'' else None)"

text \<open>Another course, for a cached list that does not hold the course asked for.\<close>

definition geometry :: course where
  "geometry = algebra\<lparr>c_id := ''c9'', c_name := ''Geometry'', c_code := ''M109''\<rparr>"



text \<open>A request that would change or remove a log row.\<close>

fun log_rewrite :: "access \<Rightarrow> bool" where
  "log_rewrite (Db Logs Update) = True"
| "log_rewrite (Db Logs Delete) = True"
| "log_rewrite a = False"

text \<open>
  The commands whose source has a branch that works on \<open>localStorage\<close> for demo users, and
  the commands whose source has no access to \<open>localStorage\<close> at all.
\<close>

fun shadowed :: "command \<Rightarrow> bool" where
  "shadowed (AddCourse clk new_id f user instrs form) = True"
| "shadowed (EditCourse f user instrs course form) = True"
| "shadowed (DeleteCourse clk f cascade confirmed user auth_user cid) = True"
| "shadowed (AdminFetchCourses clk f user) = True"
| "shadowed c = False"

fun store_only :: "command \<Rightarrow> bool" where
  "store_only (Enroll f user cached cid) = True"
| "store_only (Drop f user cached cid) = True"
| "store_only (StudentFetchCourses f user) = True"
| "store_only (StudentFetchEnrollments f user) = True"
| "store_only (InstructorFetchCourses f user) = True"
| "store_only (FetchAllEnrollments f user) = True"
| "store_only (ViewCourseStudents f user cid) = True"
| "store_only (OpenAddCourseModal f user) = True"
| "store_only (OpenEditCourseModal f user selected) = True"
| "store_only c = False"







section \<open>Properties of the policies\<close>

lemma find_unique_key:
  "distinct (map k xs) \<Longrightarrow> x \<in> set xs \<Longrightarrow> find (\<lambda>y. k y = k x) xs = Some x"
  by (induction xs) (auto simp: image_iff)

lemma sql_row_match:
  "sql_true (sql_and (sql_eq a (Some i)) (sql_eq b (Some r))) \<longleftrightarrow> a = Some i \<and> b = Some r"
  by (cases a; cases b) (auto simp: sql_eq_def sql_and_def sql_true_def)

lemma role_from_metadata_iff:
  "role_from_metadata r ctx \<longleftrightarrow>
     (\<exists>u \<in> set (auth_users ctx). auth_uid (pg_caller ctx) = Some (au_id u) \<and> au_role u = Some r)"
  by (simp add: role_from_metadata_def sql_row_match list_ex_iff)

lemma role_from_metadata_claim:
  assumes "distinct (map au_id (auth_users ctx))"
  shows "role_from_metadata r ctx = (role_claim ctx = Some r)"
proof
  assume "role_from_metadata r ctx"
  then obtain u where u: "u \<in> set (auth_users ctx)"
      "auth_uid (pg_caller ctx) = Some (au_id u)" "au_role u = Some r"
    unfolding role_from_metadata_iff by blast
  from find_unique_key [OF assms u(1)] u(2,3) show "role_claim ctx = Some r"
    by (simp add: role_claim_def)
next
  assume "role_claim ctx = Some r"
  then obtain uid u where "auth_uid (pg_caller ctx) = Some uid"
      "find (\<lambda>u. au_id u = uid) (auth_users ctx) = Some u" "au_role u = Some r"
    by (auto simp: role_claim_def split: option.splits)
  then show "role_from_metadata r ctx"
    unfolding role_from_metadata_iff by (auto simp: find_Some_iff)
qed

text \<open>
  C6, amended. A read of a Profile row through the table \<open>user_profiles\<close> is permitted by
  the row policy exactly when the caller's id is the row's id or the caller's role claim
  is admin: that way an admin reads every Profile row and a student its own row only. The
  direct lookup \<open>get_user_profile_direct\<close> gives every signed-in caller the Profile rows
  of any id it asks for, whatever the caller's id and role. The ids of \<open>auth.users\<close> are a
  primary key.
\<close>

theorem profile_read_policy:
  assumes "distinct (map au_id (auth_users ctx))"
  shows "(allow_users_to_read_own_profile ctx row_id \<longleftrightarrow>
            auth_uid (pg_caller ctx) = Some row_id \<or> role_claim ctx = Some ''admin'') \<and>
         (role_claim ctx = Some ''admin'' \<longrightarrow> allow_users_to_read_own_profile ctx row_id) \<and>
         (role_claim ctx = Some ''student'' \<longrightarrow>
            (allow_users_to_read_own_profile ctx row_id \<longleftrightarrow>
               auth_uid (pg_caller ctx) = Some row_id)) \<and>
         (to_authenticated (pg_caller ctx) \<longrightarrow>
            call_get_user_profile_direct ctx tbl row_id =
              Some (filter (\<lambda>p. p_id p = row_id) tbl))"
proof -
  have adm: "is_admin_from_metadata ctx = (role_claim ctx = Some ''admin'')"
    unfolding is_admin_from_metadata_def by (rule role_from_metadata_claim [OF assms])
  have auth: "role_claim ctx = Some r \<Longrightarrow> to_authenticated (pg_caller ctx)" for r
    by (cases "pg_caller ctx") (simp_all add: role_claim_def)
  have main: "allow_users_to_read_own_profile ctx row_id \<longleftrightarrow>
      auth_uid (pg_caller ctx) = Some row_id \<or> role_claim ctx = Some ''admin''"
    using auth [of "''admin''"]
    by (cases "pg_caller ctx")
      (auto simp: allow_users_to_read_own_profile_def adm sql_or_def sql_eq_def sql_true_def)
  have direct: "to_authenticated (pg_caller ctx) \<longrightarrow>
      call_get_user_profile_direct ctx tbl row_id = Some (filter (\<lambda>p. p_id p = row_id) tbl)"
    by (simp add: call_get_user_profile_direct_def get_user_profile_direct_def)
  show ?thesis
    using main direct by auto
qed

theorem profile_read_policy_witness:
  "distinct (map au_id (auth_users as_admin)) \<and>
   role_claim as_admin = Some ''admin'' \<and>
   allow_users_to_read_own_profile as_admin ''u-stud'' \<and>
   distinct (map au_id (auth_users as_student)) \<and>
   role_claim as_student = Some ''student'' \<and>
   to_authenticated (pg_caller as_student) \<and>
   allow_users_to_read_own_profile as_student ''u-stud'' \<and>
   \<not> allow_users_to_read_own_profile as_student ''u-admin'' \<and>
   call_get_user_profile_direct as_student sample_profiles ''u-stud'' =
     Some [\<lparr>p_id = ''u-stud'', p_email = ''stu@example.com'', p_name = ''Stu'',
            p_role = ''student''\<rparr>]"
proof -
  have d1: "distinct (map au_id (auth_users as_admin))"
    by (simp add: as_admin_def sample_users_def)
  have d2: "distinct (map au_id (auth_users as_student))"
    by (simp add: as_student_def sample_users_def)
  have r1: "role_claim as_admin = Some ''admin''"
    by (simp add: role_claim_def as_admin_def sample_users_def)
  have r2: "role_claim as_student = Some ''student''"
    by (simp add: role_claim_def as_student_def sample_users_def)
  have u2: "auth_uid (pg_caller as_student) = Some ''u-stud''"
       "auth_uid (pg_caller as_student) \<noteq> Some ''u-admin''"
       "to_authenticated (pg_caller as_student)"
    by (simp_all add: as_student_def)
  have t: "filter (\<lambda>p. p_id p = ''u-stud'') sample_profiles =
      [\<lparr>p_id = ''u-stud'', p_email = ''stu@example.com'', p_name = ''Stu'', p_role = ''student''\<rparr>]"
    by (simp add: sample_profiles_def)
  show ?thesis
    using d1 d2 r1 r2 u2 t
      profile_read_policy [OF d1, of "''u-stud''" sample_profiles]
      profile_read_policy [OF d2, of "''u-stud''" sample_profiles]
      profile_read_policy [OF d2, of "''u-admin''" sample_profiles]
    by simp
qed

text \<open>
  C6 as stated fails: a signed-in student is refused the administrator's Profile row by
  the row policy and reads the same row with the direct lookup.
\<close>

theorem profile_direct_lookup_counterexample:
  "role_claim as_student = Some ''student'' \<and>
   auth_uid (pg_caller as_student) = Some ''u-stud'' \<and>
   \<not> allow_users_to_read_own_profile as_student ''u-admin'' \<and>
   call_get_user_profile_direct as_student sample_profiles ''u-admin'' =
     Some [\<lparr>p_id = ''u-admin'', p_email = ''root@example.com'', p_name = ''Root'',
            p_role = ''admin''\<rparr>]"
  by (simp add: role_claim_def as_student_def sample_users_def sample_profiles_def
      allow_users_to_read_own_profile_def is_admin_from_metadata_def role_from_metadata_def
      sql_or_def sql_and_def sql_eq_def sql_true_def call_get_user_profile_direct_def
      get_user_profile_direct_def)

text \<open>
  C7. A read of a Student row is permitted exactly when the caller's id is the row's id or
  the caller's role claim is admin or instructor. So a student reading another student's
  row is denied, and a student reading its own row succeeds.
\<close>

theorem student_read_policy:
  assumes "distinct (map au_id (auth_users ctx))"
  shows "(allow_students_to_read_own_record ctx row_id \<longleftrightarrow>
            auth_uid (pg_caller ctx) = Some row_id \<or> role_claim ctx = Some ''admin'' \<or>
            role_claim ctx = Some ''instructor'') \<and>
         (role_claim ctx = Some ''student'' \<longrightarrow>
            (allow_students_to_read_own_record ctx row_id \<longleftrightarrow>
               auth_uid (pg_caller ctx) = Some row_id))"
proof -
  have adm: "is_admin_from_metadata ctx = (role_claim ctx = Some ''admin'')"
    unfolding is_admin_from_metadata_def by (rule role_from_metadata_claim [OF assms])
  have ins: "is_instructor_from_metadata ctx = (role_claim ctx = Some ''instructor'')"
    unfolding is_instructor_from_metadata_def by (rule role_from_metadata_claim [OF assms])
  have auth: "role_claim ctx = Some r \<Longrightarrow> to_authenticated (pg_caller ctx)" for r
    by (cases "pg_caller ctx") (simp_all add: role_claim_def)
  have main: "allow_students_to_read_own_record ctx row_id \<longleftrightarrow>
      auth_uid (pg_caller ctx) = Some row_id \<or> role_claim ctx = Some ''admin'' \<or>
      role_claim ctx = Some ''instructor''"
    using auth [of "''admin''"] auth [of "''instructor''"]
    by (cases "pg_caller ctx")
      (auto simp: allow_students_to_read_own_record_def adm ins sql_or_def sql_eq_def
        sql_true_def)
  show ?thesis
    using main by auto
qed

theorem student_read_policy_witness:
  "distinct (map au_id (auth_users as_student)) \<and>
   role_claim as_student = Some ''student'' \<and>
   allow_students_to_read_own_record as_student ''u-stud'' \<and>
   \<not> allow_students_to_read_own_record as_student ''u-other''"
proof -
  have d: "distinct (map au_id (auth_users as_student))"
    by (simp add: as_student_def sample_users_def)
  have r: "role_claim as_student = Some ''student''"
    by (simp add: role_claim_def as_student_def sample_users_def)
  have u: "auth_uid (pg_caller as_student) = Some ''u-stud''"
       "auth_uid (pg_caller as_student) \<noteq> Some ''u-other''"
    by (simp_all add: as_student_def)
  show ?thesis
    using d r u
      student_read_policy [OF d, of "''u-stud''"]
      student_read_policy [OF d, of "''u-other''"]
    by simp
qed

section \<open>Properties of enroll and drop\<close>

lemmas effects = accessed_def console_error_def toast_error_def toast_success_def

lemmas requests = single_def students_select_single_def user_profiles_select_single_def
  students_insert_def enrollments_insert_def enrollments_delete_def
  courses_update_enrollment_def logs_insert_def

lemma ensure_frame:
  assumes "ensureStudentProfile f user w = (b, w1)"
  shows "courses (db w1) = courses (db w) \<and> enrollments (db w1) = enrollments (db w) \<and>
         logs (db w1) = logs (db w) \<and> user_profiles (db w1) = user_profiles (db w) \<and>
         ls w1 = ls w"
  using assms
  by (auto simp: ensureStudentProfile_def requests effects Let_def
      split: option.splits sum.splits prod.splits if_splits list.splits)

lemma ensure_students:
  assumes "ensureStudentProfile f (Some u) w = (b, w1)"
  shows "students (db w1) = students (db w) \<or>
         (\<exists>s. s_id s = user_id u \<and> students (db w1) = students (db w) @ [s])"
  using assms
  by (auto simp: ensureStudentProfile_def requests effects Let_def
      split: option.splits sum.splits prod.splits if_splits list.splits)

lemma ensure_writes:
  assumes "ensureStudentProfile f user w = (b, w1)"
  shows "filter is_write (trace w1) = filter is_write (trace w) \<or>
         filter is_write (trace w1) = filter is_write (trace w) @ [Db Students Insert]"
  using assms
  by (auto simp: ensureStudentProfile_def requests effects Let_def
      split: option.splits sum.splits prod.splits if_splits list.splits)

lemma find_map_update:
  "find (\<lambda>c. c_id c = cid) (map (\<lambda>c. if c_id c = cid then c\<lparr>current_enrollment := n\<rparr> else c) cs) =
     map_option (\<lambda>c. c\<lparr>current_enrollment := n\<rparr>) (find (\<lambda>c. c_id c = cid) cs)"
  by (induction cs) auto

lemma stored_enrollment_update:
  assumes "courses s' = map (\<lambda>c. if c_id c = cid then c\<lparr>current_enrollment := n\<rparr> else c) (courses s)"
  shows "stored_enrollment s' cid = map_option (\<lambda>k. n) (stored_enrollment s cid)"
  by (simp add: stored_enrollment_def assms find_map_update option.map_comp comp_def)

lemma enroll_full:
  assumes "ensureStudentProfile f (Some u) w = (True, w1)"
      and "find (\<lambda>c. c_id c = cid) cached = Some c"
      and "max_capacity c \<le> current_enrollment c"
  shows "enrollInCourse f (Some u) cached cid w =
           (CapacityExceeded, toast_error ''This course is already full'' w1)"
  using assms by (simp add: enrollInCourse_def)

text \<open>What a call that passes the capacity check and inserts its row does.\<close>

lemma enroll_inserted:
  assumes "ensureStudentProfile f (Some u) w = (True, w1)"
      and "case find (\<lambda>c. c_id c = cid) cached of
             None \<Rightarrow> True | Some c \<Rightarrow> current_enrollment c < max_capacity c"
      and "f Enrollments Insert = None"
      and "\<not> enrolled cid (user_id u) (db w)"
  shows "fst (enrollInCourse f (Some u) cached cid w) = Success"
    and "enrollments (db (snd (enrollInCourse f (Some u) cached cid w))) =
           enrollments (db w) @
             [\<lparr>course_id = cid, student_id = user_id u, enrollment_status = ''enrolled''\<rparr>]"
    and "courses (db (snd (enrollInCourse f (Some u) cached cid w))) =
           (if f Courses Update = None
            then map (\<lambda>c. if c_id c = cid
                          then c\<lparr>current_enrollment :=
                                   (case find (\<lambda>c. c_id c = cid) cached of
                                      None \<Rightarrow> 1 | Some c \<Rightarrow> current_enrollment c + 1)\<rparr>
                          else c) (courses (db w))
            else courses (db w))"
    and "logs (db (snd (enrollInCourse f (Some u) cached cid w))) =
           (if f Logs Insert = None
            then logs (db w) @
              [\<lparr>action = ''student_enrolled'', performed_by = Some (user_id u),
                details = [(''course_id'', JStr cid), (''student_id'', JStr (user_id u))]\<rparr>]
            else logs (db w))"
    and "students (db (snd (enrollInCourse f (Some u) cached cid w))) = students (db w1)"
    and "console (snd (enrollInCourse f (Some u) cached cid w)) =
           (if f Courses Update = None then console w1
            else console w1 @ [''Error updating course enrollment count:''])"
    and "toasts (snd (enrollInCourse f (Some u) cached cid w)) =
           toasts w1 @ [ToastSuccess ''Successfully enrolled in course'']"
    and "trace (snd (enrollInCourse f (Some u) cached cid w)) =
           trace w1 @ [Db Enrollments Insert, Db Courses Update, Db Logs Insert]"
proof -
  have e: "enrollments (db w1) = enrollments (db w)" "courses (db w1) = courses (db w)"
    "logs (db w1) = logs (db w)"
    using ensure_frame [OF assms(1)] by simp_all
  then have ne: "\<not> enrolled cid (user_id u) (db w1)"
    using assms(4) by (simp add: enrolled_def)
  note unfold = enrollInCourse_def enrollments_insert_def courses_update_enrollment_def
    logs_insert_def effects Let_def
  show "fst (enrollInCourse f (Some u) cached cid w) = Success"
    using assms(1,2,3) ne by (auto simp: unfold split: option.splits prod.splits)
  show "enrollments (db (snd (enrollInCourse f (Some u) cached cid w))) =
           enrollments (db w) @
             [\<lparr>course_id = cid, student_id = user_id u, enrollment_status = ''enrolled''\<rparr>]"
    using assms(1,2,3) ne e by (auto simp: unfold split: option.splits prod.splits)
  show "courses (db (snd (enrollInCourse f (Some u) cached cid w))) =
           (if f Courses Update = None
            then map (\<lambda>c. if c_id c = cid
                          then c\<lparr>current_enrollment :=
                                   (case find (\<lambda>c. c_id c = cid) cached of
                                      None \<Rightarrow> 1 | Some c \<Rightarrow> current_enrollment c + 1)\<rparr>
                          else c) (courses (db w))
            else courses (db w))"
    using assms(1,2,3) ne e by (auto simp: unfold split: option.splits prod.splits)
  show "logs (db (snd (enrollInCourse f (Some u) cached cid w))) =
           (if f Logs Insert = None
            then logs (db w) @
              [\<lparr>action = ''student_enrolled'', performed_by = Some (user_id u),
                details = [(''course_id'', JStr cid), (''student_id'', JStr (user_id u))]\<rparr>]
            else logs (db w))"
    using assms(1,2,3) ne e by (auto simp: unfold split: option.splits prod.splits)
  show "students (db (snd (enrollInCourse f (Some u) cached cid w))) = students (db w1)"
    using assms(1,2,3) ne e by (auto simp: unfold split: option.splits prod.splits)
  show "console (snd (enrollInCourse f (Some u) cached cid w)) =
           (if f Courses Update = None then console w1
            else console w1 @ [''Error updating course enrollment count:''])"
    using assms(1,2,3) ne e by (auto simp: unfold split: option.splits prod.splits)
  show "toasts (snd (enrollInCourse f (Some u) cached cid w)) =
           toasts w1 @ [ToastSuccess ''Successfully enrolled in course'']"
    using assms(1,2,3) ne e by (auto simp: unfold split: option.splits prod.splits)
  show "trace (snd (enrollInCourse f (Some u) cached cid w)) =
           trace w1 @ [Db Enrollments Insert, Db Courses Update, Db Logs Insert]"
    using assms(1,2,3) ne e by (auto simp: unfold split: option.splits prod.splits)
qed

text \<open>What a successful call has done to the course rows and the enrollments.\<close>

lemma enroll_success:
  assumes "fst (enrollInCourse f (Some u) cached cid w) = Success"
  shows "(case find (\<lambda>c. c_id c = cid) cached of
            None \<Rightarrow> True | Some c \<Rightarrow> current_enrollment c < max_capacity c)"
    and "enrolled cid (user_id u) (db (snd (enrollInCourse f (Some u) cached cid w)))"
    and "courses (db (snd (enrollInCourse f (Some u) cached cid w))) =
           (if f Courses Update = None
            then map (\<lambda>c. if c_id c = cid
                          then c\<lparr>current_enrollment :=
                                   (case find (\<lambda>c. c_id c = cid) cached of
                                      None \<Rightarrow> 1 | Some c \<Rightarrow> current_enrollment c + 1)\<rparr>
                          else c) (courses (db w))
            else courses (db w))"
proof -
  obtain b w1 where ens: "ensureStudentProfile f (Some u) w = (b, w1)"
    by (meson surj_pair)
  have fr: "courses (db w1) = courses (db w)"
    using ensure_frame [OF ens] by simp
  note unfold = enrollInCourse_def enrollments_insert_def courses_update_enrollment_def
    logs_insert_def effects enrolled_def Let_def
  show "(case find (\<lambda>c. c_id c = cid) cached of
            None \<Rightarrow> True | Some c \<Rightarrow> current_enrollment c < max_capacity c)"
    using assms ens
    by (cases b) (auto simp: unfold split: option.splits prod.splits if_splits)
  show "enrolled cid (user_id u) (db (snd (enrollInCourse f (Some u) cached cid w)))"
    using assms ens
    by (cases b) (auto simp: unfold split: option.splits prod.splits if_splits)
  show "courses (db (snd (enrollInCourse f (Some u) cached cid w))) =
           (if f Courses Update = None
            then map (\<lambda>c. if c_id c = cid
                          then c\<lparr>current_enrollment :=
                                   (case find (\<lambda>c. c_id c = cid) cached of
                                      None \<Rightarrow> 1 | Some c \<Rightarrow> current_enrollment c + 1)\<rparr>
                          else c) (courses (db w))
            else courses (db w))"
    using assms ens fr
    by (cases b) (auto simp: unfold split: option.splits prod.splits if_splits)
qed

text \<open>
  C1, amended. For every course C that has a row in the store and is offered by the view
  (a row of the cached course list), and every student S with no Enrollment row for
  (C, S): enroll succeeds only if the cached row has current_enrollment < max_capacity
  when the check is evaluated, and then it does succeed unless the student-profile step or
  the enrollment insert fails at the store. After a successful enroll an Enrollment row
  for (C, S) exists and, unless the counter update failed at the store, the stored
  current_enrollment of C is the cached value plus 1: greater by exactly 1 than before
  when the cached row agreed with the store.
\<close>

theorem enroll_fresh_cached:
  assumes "find (\<lambda>c. c_id c = cid) cached = Some c"
      and "stored_enrollment (db w) cid = Some n"
      and "\<not> enrolled cid (user_id u) (db w)"
  shows "(fst (enrollInCourse f (Some u) cached cid w) = Success \<longrightarrow>
            current_enrollment c < max_capacity c \<and>
            enrolled cid (user_id u) (db (snd (enrollInCourse f (Some u) cached cid w)))) \<and>
         (current_enrollment c < max_capacity c \<and>
          fst (ensureStudentProfile f (Some u) w) \<and> f Enrollments Insert = None \<longrightarrow>
            fst (enrollInCourse f (Some u) cached cid w) = Success) \<and>
         (fst (enrollInCourse f (Some u) cached cid w) = Success \<and> f Courses Update = None \<longrightarrow>
            stored_enrollment (db (snd (enrollInCourse f (Some u) cached cid w))) cid =
              Some (current_enrollment c + 1)) \<and>
         (fst (enrollInCourse f (Some u) cached cid w) = Success \<and> f Courses Update = None \<and>
          n = current_enrollment c \<longrightarrow>
            stored_enrollment (db (snd (enrollInCourse f (Some u) cached cid w))) cid =
              Some (n + 1))"
proof -
  have a: "current_enrollment c < max_capacity c \<and>
      enrolled cid (user_id u) (db (snd (enrollInCourse f (Some u) cached cid w)))"
    if "fst (enrollInCourse f (Some u) cached cid w) = Success"
    using enroll_success(1,2) [OF that] assms(1) by simp
  have b: "fst (enrollInCourse f (Some u) cached cid w) = Success"
    if p: "current_enrollment c < max_capacity c" "fst (ensureStudentProfile f (Some u) w)"
      "f Enrollments Insert = None"
  proof -
    obtain w1 where ens: "ensureStudentProfile f (Some u) w = (True, w1)"
      using p(2) by (cases "ensureStudentProfile f (Some u) w") auto
    have pass: "case find (\<lambda>c. c_id c = cid) cached of
             None \<Rightarrow> True | Some c \<Rightarrow> current_enrollment c < max_capacity c"
      using assms(1) p(1) by simp
    show ?thesis
      by (rule enroll_inserted(1) [OF ens pass p(3) assms(3)])
  qed
  have c: "stored_enrollment (db (snd (enrollInCourse f (Some u) cached cid w))) cid =
              Some (current_enrollment c + 1)"
    if q: "fst (enrollInCourse f (Some u) cached cid w) = Success" "f Courses Update = None"
  proof -
    have "courses (db (snd (enrollInCourse f (Some u) cached cid w))) =
        map (\<lambda>x. if c_id x = cid then x\<lparr>current_enrollment := current_enrollment c + 1\<rparr> else x)
          (courses (db w))"
      using enroll_success(3) [OF q(1)] q(2) assms(1) by simp
    from stored_enrollment_update [OF this] assms(2) show ?thesis by simp
  qed
  from a b c show ?thesis by simp
qed

theorem enroll_fresh_cached_witness:
  "find (\<lambda>c. c_id c = ''c1'') [algebra2] = Some algebra2 \<and>
   stored_enrollment (db (world_of store_open)) ''c1'' = Some 2 \<and>
   \<not> enrolled ''c1'' (user_id alice) (db (world_of store_open)) \<and>
   current_enrollment algebra2 < max_capacity algebra2 \<and>
   fst (ensureStudentProfile no_faults (Some alice) (world_of store_open)) \<and>
   no_faults Enrollments Insert = None \<and>
   no_faults Courses Update = None \<and>
   fst (enrollInCourse no_faults (Some alice) [algebra2] ''c1'' (world_of store_open)) = Success \<and>
   enrolled ''c1'' (user_id alice)
     (db (snd (enrollInCourse no_faults (Some alice) [algebra2] ''c1'' (world_of store_open)))) \<and>
   stored_enrollment
     (db (snd (enrollInCourse no_faults (Some alice) [algebra2] ''c1'' (world_of store_open))))
     ''c1'' = Some 3"
proof -
  have h1: "find (\<lambda>c. c_id c = ''c1'') [algebra2] = Some algebra2"
    by (simp add: algebra2_def algebra_def)
  have h2: "stored_enrollment (db (world_of store_open)) ''c1'' = Some 2"
    by (simp add: stored_enrollment_def world_of_def store_open_def store_full_def
        algebra2_def algebra_def)
  have h3: "\<not> enrolled ''c1'' (user_id alice) (db (world_of store_open))"
    by (simp add: enrolled_def world_of_def store_open_def store_full_def)
  have h4: "current_enrollment algebra2 < max_capacity algebra2"
       "current_enrollment algebra2 = 2"
    by (simp_all add: algebra2_def algebra_def)
  have h5: "fst (ensureStudentProfile no_faults (Some alice) (world_of store_open))"
    by (simp add: ensureStudentProfile_def students_select_single_def single_def no_faults_def
        world_of_def store_open_def store_full_def student_row_def alice_def)
  have h6: "no_faults Enrollments Insert = None" "no_faults Courses Update = None"
    by (simp_all add: no_faults_def)
  show ?thesis
    using enroll_fresh_cached [OF h1 h2 h3, of no_faults] h1 h2 h3 h4 h5 h6 by simp
qed

text \<open>
  C1 as stated fails in four ways. With a stale cached row (2 of 5 cached, 5 of 5 stored)
  the enroll succeeds on a full course and the stored counter goes from 5 to 3. With the
  cached row agreeing with the store (2 of 5): when the counter update fails, the enroll
  succeeds and the counter stays 2; when the enrollment insert fails, or the lookup of the
  Student row fails, the enroll does not succeed although 2 < 5.
\<close>

theorem enroll_fresh_counterexample:
  "\<not> enrolled ''c1'' (user_id alice) (db (world_of store_full)) \<and>
   stored_enrollment (db (world_of store_full)) ''c1'' = Some 5 \<and>
   map_option max_capacity (find (\<lambda>c. c_id c = ''c1'') (courses (db (world_of store_full)))) =
     Some 5 \<and>
   fst (enrollInCourse no_faults (Some alice) [algebra2] ''c1'' (world_of store_full)) = Success \<and>
   stored_enrollment
     (db (snd (enrollInCourse no_faults (Some alice) [algebra2] ''c1'' (world_of store_full))))
     ''c1'' = Some 3 \<and>
   \<not> enrolled ''c1'' (user_id alice) (db (world_of store_open)) \<and>
   stored_enrollment (db (world_of store_open)) ''c1'' = Some 2 \<and>
   map_option max_capacity (find (\<lambda>c. c_id c = ''c1'') (courses (db (world_of store_open)))) =
     Some 5 \<and>
   fst (enrollInCourse update_fails (Some alice) [algebra2] ''c1'' (world_of store_open)) =
     Success \<and>
   stored_enrollment
     (db (snd (enrollInCourse update_fails (Some alice) [algebra2] ''c1'' (world_of store_open))))
     ''c1'' = Some 2 \<and>
   fst (enrollInCourse insert_fails (Some alice) [algebra2] ''c1'' (world_of store_open)) =
     StoreError \<and>
   fst (enrollInCourse lookup_fails (Some alice) [algebra2] ''c1'' (world_of store_open)) =
     ProfileError"
  by (simp add: enrollInCourse_def ensureStudentProfile_def requests effects no_faults_def
      update_fails_def insert_fails_def lookup_fails_def
      enrolled_def stored_enrollment_def world_of_def store_open_def store_full_def
      student_row_def alice_def algebra2_def algebra_def)

text \<open>
  C4, amended. When the capacity check finds the cached row of the course full, enroll
  fails with CapacityExceeded: no Enrollment row is inserted, no course row (so no
  current_enrollment) is changed and no log entry is appended. From the check on the call
  writes nothing; the only write it can have made is the insert of the caller's Student
  row by \<open>ensureStudentProfile\<close>, before the check.
\<close>

theorem enroll_capacity_exceeded:
  assumes "ensureStudentProfile f (Some u) w = (True, w1)"
      and "find (\<lambda>c. c_id c = cid) cached = Some c"
      and "current_enrollment c \<ge> max_capacity c"
  shows "fst (enrollInCourse f (Some u) cached cid w) = CapacityExceeded \<and>
         enrollments (db (snd (enrollInCourse f (Some u) cached cid w))) = enrollments (db w) \<and>
         courses (db (snd (enrollInCourse f (Some u) cached cid w))) = courses (db w) \<and>
         logs (db (snd (enrollInCourse f (Some u) cached cid w))) = logs (db w) \<and>
         user_profiles (db (snd (enrollInCourse f (Some u) cached cid w))) = user_profiles (db w) \<and>
         ls (snd (enrollInCourse f (Some u) cached cid w)) = ls w \<and>
         (students (db (snd (enrollInCourse f (Some u) cached cid w))) = students (db w) \<or>
          (\<exists>s. s_id s = user_id u \<and>
               students (db (snd (enrollInCourse f (Some u) cached cid w))) =
                 students (db w) @ [s])) \<and>
         (filter is_write (trace (snd (enrollInCourse f (Some u) cached cid w))) =
            filter is_write (trace w) \<or>
          filter is_write (trace (snd (enrollInCourse f (Some u) cached cid w))) =
            filter is_write (trace w) @ [Db Students Insert])"
proof -
  have r: "enrollInCourse f (Some u) cached cid w =
      (CapacityExceeded, toast_error ''This course is already full'' w1)"
    by (rule enroll_full [OF assms])
  have w1: "db (toast_error ''This course is already full'' w1) = db w1"
    "ls (toast_error ''This course is already full'' w1) = ls w1"
    "trace (toast_error ''This course is already full'' w1) = trace w1"
    by (simp_all add: toast_error_def)
  show ?thesis
    unfolding r fst_conv snd_conv w1
    using ensure_frame [OF assms(1)] ensure_students [OF assms(1)] ensure_writes [OF assms(1)]
    by simp
qed

theorem enroll_capacity_exceeded_witness:
  "ensureStudentProfile no_faults (Some alice) (world_of store_full) =
     (True, accessed (Db Students Select) (world_of store_full)) \<and>
   find (\<lambda>c. c_id c = ''c1'') [algebra] = Some algebra \<and>
   current_enrollment algebra \<ge> max_capacity algebra \<and>
   fst (enrollInCourse no_faults (Some alice) [algebra] ''c1'' (world_of store_full)) =
     CapacityExceeded \<and>
   enrollments (db (snd (enrollInCourse no_faults (Some alice) [algebra] ''c1''
     (world_of store_full)))) = [] \<and>
   courses (db (snd (enrollInCourse no_faults (Some alice) [algebra] ''c1''
     (world_of store_full)))) = [algebra] \<and>
   logs (db (snd (enrollInCourse no_faults (Some alice) [algebra] ''c1''
     (world_of store_full)))) = []"
proof -
  have h1: "ensureStudentProfile no_faults (Some alice) (world_of store_full) =
     (True, accessed (Db Students Select) (world_of store_full))"
    by (simp add: ensureStudentProfile_def students_select_single_def single_def no_faults_def
        world_of_def store_full_def student_row_def alice_def)
  have h2: "find (\<lambda>c. c_id c = ''c1'') [algebra] = Some algebra"
    by (simp add: algebra_def)
  have h3: "current_enrollment algebra \<ge> max_capacity algebra"
    by (simp add: algebra_def)
  have h4: "enrollments (db (world_of store_full)) = []"
    "courses (db (world_of store_full)) = [algebra]" "logs (db (world_of store_full)) = []"
    by (simp_all add: world_of_def store_full_def)
  show ?thesis
    using enroll_capacity_exceeded [OF h1 h2 h3] h1 h2 h3 h4 by simp
qed

text \<open>
  C4 as stated ("no writes at all") fails for a student who has no Student row yet: the
  call fails with CapacityExceeded and has inserted that row.
\<close>

theorem enroll_capacity_exceeded_writes_counterexample:
  "fst (ensureStudentProfile no_faults (Some alice) (world_of store_new_student)) \<and>
   find (\<lambda>c. c_id c = ''c1'') [algebra] = Some algebra \<and>
   current_enrollment algebra \<ge> max_capacity algebra \<and>
   fst (enrollInCourse no_faults (Some alice) [algebra] ''c1'' (world_of store_new_student)) =
     CapacityExceeded \<and>
   students (db (world_of store_new_student)) = [] \<and>
   students (db (snd (enrollInCourse no_faults (Some alice) [algebra] ''c1''
     (world_of store_new_student)))) =
     [\<lparr>s_id = ''alice'', s_name = ''Alice'', s_email = ''alice@example.com'',
       academic_status = ''active''\<rparr>] \<and>
   trace (snd (enrollInCourse no_faults (Some alice) [algebra] ''c1''
     (world_of store_new_student))) =
     [Db Students Select, Db User_profiles Select, Db Students Insert]"
  by (simp add: enrollInCourse_def ensureStudentProfile_def requests effects no_faults_def
      js_or_def opt_str_def world_of_def store_new_student_def store_full_def profile_row_def
      alice_def algebra_def)

text \<open>
  C5, amended. When the course is absent from the cached list, the capacity check is
  skipped: the call never ends with CapacityExceeded, whatever the store holds. When the
  enrollment insert succeeds the call succeeds, and the counter update writes the constant
  1 over the stored current_enrollment of the course instead of incrementing it; when that
  update request itself fails at the store, the stored value stays as it was.
\<close>

theorem enroll_uncached:
  assumes "find (\<lambda>c. c_id c = cid) cached = None"
  shows "fst (enrollInCourse f user cached cid w) \<noteq> CapacityExceeded \<and>
         (fst (enrollInCourse f user cached cid w) = Success \<longrightarrow>
            courses (db (snd (enrollInCourse f user cached cid w))) =
              (if f Courses Update = None
               then map (\<lambda>c. if c_id c = cid then c\<lparr>current_enrollment := 1\<rparr> else c)
                      (courses (db w))
               else courses (db w)))"
proof (cases user)
  case None
  then show ?thesis by (simp add: enrollInCourse_def)
next
  case (Some u)
  obtain b w1 where ens: "ensureStudentProfile f (Some u) w = (b, w1)"
    by (cases "ensureStudentProfile f (Some u) w") auto
  have c1: "courses (db w1) = courses (db w)"
    using ensure_frame [OF ens] by simp
  show ?thesis
    using ens assms c1 unfolding Some
    by (cases b)
      (auto simp: enrollInCourse_def enrollments_insert_def courses_update_enrollment_def
        logs_insert_def effects Let_def split: option.splits prod.splits if_splits)
qed

theorem enroll_uncached_witness:
  "find (\<lambda>c. c_id c = ''c1'') [geometry] = None \<and>
   no_faults Courses Update = None \<and>
   stored_enrollment (db (world_of store_full)) ''c1'' = Some 5 \<and>
   fst (enrollInCourse no_faults (Some alice) [geometry] ''c1'' (world_of store_full)) = Success \<and>
   courses (db (snd (enrollInCourse no_faults (Some alice) [geometry] ''c1''
     (world_of store_full)))) = [algebra\<lparr>current_enrollment := 1\<rparr>]"
proof -
  have h1: "find (\<lambda>c. c_id c = ''c1'') [geometry] = None"
    by (simp add: geometry_def algebra_def)
  have h2: "fst (enrollInCourse no_faults (Some alice) [geometry] ''c1'' (world_of store_full)) =
      Success"
    by (simp add: enrollInCourse_def ensureStudentProfile_def requests effects no_faults_def
      enrolled_def world_of_def store_full_def student_row_def alice_def geometry_def algebra_def)
  have h3: "stored_enrollment (db (world_of store_full)) ''c1'' = Some 5"
       "courses (db (world_of store_full)) = [algebra]" "c_id algebra = ''c1''"
    by (simp_all add: stored_enrollment_def world_of_def store_full_def algebra_def)
  have h4: "no_faults Courses Update = None" by (simp add: no_faults_def)
  show ?thesis
    using enroll_uncached [OF h1, of no_faults "Some alice" "world_of store_full"] h1 h2 h3 h4
    by simp
qed

text \<open>
  C5 as stated fails when the counter update fails at the store: the course is not in
  the cached list, the insert succeeds, and the stored current_enrollment stays 5.
\<close>

theorem enroll_uncached_update_fails_counterexample:
  "find (\<lambda>c. c_id c = ''c1'') [geometry] = None \<and>
   stored_enrollment (db (world_of store_full)) ''c1'' = Some 5 \<and>
   fst (enrollInCourse update_fails (Some alice) [geometry] ''c1'' (world_of store_full)) =
     Success \<and>
   enrollments (db (snd (enrollInCourse update_fails (Some alice) [geometry] ''c1''
     (world_of store_full)))) =
     [\<lparr>course_id = ''c1'', student_id = ''alice'', enrollment_status = ''enrolled''\<rparr>] \<and>
   stored_enrollment (db (snd (enrollInCourse update_fails (Some alice) [geometry] ''c1''
     (world_of store_full)))) ''c1'' = Some 5"
  by (simp add: enrollInCourse_def ensureStudentProfile_def requests effects update_fails_def
      enrolled_def stored_enrollment_def world_of_def store_full_def student_row_def
      alice_def geometry_def algebra_def)

text \<open>
  C9. When the enrollment insert succeeds and the counter update fails, the inserted row
  stays, nothing is undone (the only requests after the insert are the failed update and
  the log insert; no course row changes), the failure is written to the console, the log
  entry is appended and the call ends with the success toast.
\<close>

theorem enroll_counter_update_fails:
  assumes "ensureStudentProfile f (Some u) w = (True, w1)"
      and "case find (\<lambda>c. c_id c = cid) cached of
             None \<Rightarrow> True | Some c \<Rightarrow> current_enrollment c < max_capacity c"
      and "f Enrollments Insert = None"
      and "\<not> enrolled cid (user_id u) (db w)"
      and "f Courses Update = Some e"
  shows "fst (enrollInCourse f (Some u) cached cid w) = Success \<and>
         enrollments (db (snd (enrollInCourse f (Some u) cached cid w))) =
           enrollments (db w) @
             [\<lparr>course_id = cid, student_id = user_id u, enrollment_status = ''enrolled''\<rparr>] \<and>
         courses (db (snd (enrollInCourse f (Some u) cached cid w))) = courses (db w) \<and>
         students (db (snd (enrollInCourse f (Some u) cached cid w))) = students (db w1) \<and>
         logs (db (snd (enrollInCourse f (Some u) cached cid w))) =
           (if f Logs Insert = None
            then logs (db w) @
              [\<lparr>action = ''student_enrolled'', performed_by = Some (user_id u),
                details = [(''course_id'', JStr cid), (''student_id'', JStr (user_id u))]\<rparr>]
            else logs (db w)) \<and>
         console (snd (enrollInCourse f (Some u) cached cid w)) =
           console w1 @ [''Error updating course enrollment count:''] \<and>
         toasts (snd (enrollInCourse f (Some u) cached cid w)) =
           toasts w1 @ [ToastSuccess ''Successfully enrolled in course''] \<and>
         trace (snd (enrollInCourse f (Some u) cached cid w)) =
           trace w1 @ [Db Enrollments Insert, Db Courses Update, Db Logs Insert]"
  using enroll_inserted [OF assms(1,2,3,4)] assms(5) by simp

theorem enroll_counter_update_fails_witness:
  "ensureStudentProfile update_fails (Some alice) (world_of store_open) =
     (True, accessed (Db Students Select) (world_of store_open)) \<and>
   update_fails Enrollments Insert = None \<and>
   update_fails Courses Update = Some ''57014'' \<and>
   \<not> enrolled ''c1'' (user_id alice) (db (world_of store_open)) \<and>
   fst (enrollInCourse update_fails (Some alice) [algebra2] ''c1'' (world_of store_open)) =
     Success \<and>
   enrollments (db (snd (enrollInCourse update_fails (Some alice) [algebra2] ''c1''
     (world_of store_open)))) =
     [\<lparr>course_id = ''c1'', student_id = ''alice'', enrollment_status = ''enrolled''\<rparr>] \<and>
   courses (db (snd (enrollInCourse update_fails (Some alice) [algebra2] ''c1''
     (world_of store_open)))) = [algebra2] \<and>
   console (snd (enrollInCourse update_fails (Some alice) [algebra2] ''c1''
     (world_of store_open))) = [''Error updating course enrollment count:''] \<and>
   toasts (snd (enrollInCourse update_fails (Some alice) [algebra2] ''c1''
     (world_of store_open))) = [ToastSuccess ''Successfully enrolled in course'']"
proof -
  have h1: "ensureStudentProfile update_fails (Some alice) (world_of store_open) =
     (True, accessed (Db Students Select) (world_of store_open))"
    by (simp add: ensureStudentProfile_def students_select_single_def single_def update_fails_def
        world_of_def store_open_def store_full_def student_row_def alice_def)
  have h2: "case find (\<lambda>c. c_id c = ''c1'') [algebra2] of
             None \<Rightarrow> True | Some c \<Rightarrow> current_enrollment c < max_capacity c"
    by (simp add: algebra2_def algebra_def)
  have h3: "update_fails Enrollments Insert = None" "update_fails Courses Update = Some ''57014''"
    by (simp_all add: update_fails_def)
  have h4: "\<not> enrolled ''c1'' (user_id alice) (db (world_of store_open))"
    by (simp add: enrolled_def world_of_def store_open_def store_full_def)
  have h5: "enrollments (db (world_of store_open)) = []"
    "courses (db (world_of store_open)) = [algebra2]" "user_id alice = ''alice''"
    "console (accessed (Db Students Select) (world_of store_open)) = []"
    "toasts (accessed (Db Students Select) (world_of store_open)) = []"
    by (simp_all add: world_of_def store_open_def store_full_def alice_def accessed_def)
  show ?thesis
    using enroll_counter_update_fails [OF h1 h2 h3(1) h4 h3(2)] h1 h3 h4 h5 by simp
qed

section \<open>Properties of the commands\<close>

lemmas course_requests = courses_select_def courses_select_instructor_def
  enrollments_select_student_def logs_select_def courses_insert_def courses_update_single_def
  courses_delete_def

lemmas shadow_store = getItem_demoCourses_def setItem_demoCourses_def getItem_demoLogs_def
  setItem_demoLogs_def getDemoCoursesFromStorage_def addDemoLog_def
  removeCourseFromDemoStorage_def generateDemoLogs_def saveCourseToDemoStorage_def
  updateCourseInDemoStorage_def

lemma ensure_trace:
  assumes "ensureStudentProfile f user w = (b, w1)"
  shows "\<exists>t. trace w1 = trace w @ t \<and>
             set t \<subseteq> {Db Students Select, Db User_profiles Select, Db Students Insert}"
  using assms
  by (auto simp: ensureStudentProfile_def requests effects Let_def
      split: option.splits sum.splits prod.splits if_splits list.splits)

lemma logsWithUserInfo_frame:
  "logsWithUserInfo f rows w = (shown, w') \<Longrightarrow>
     db w' = db w \<and> ls w' = ls w \<and>
     (\<exists>t. trace w' = trace w @ t \<and> set t \<subseteq> {Db User_profiles Select})"
proof (induction rows arbitrary: w shown w')
  case Nil
  then show ?case by simp
next
  case (Cons l rest)
  obtain r w1 where r: "(if opt_str (performed_by l) = [] then (Inl [], w)
            else user_profiles_select_single f (opt_str (performed_by l)) w) = (r, w1)"
    by (meson surj_pair)
  obtain sh w2 where rec: "logsWithUserInfo f rest w1 = (sh, w2)"
    by (meson surj_pair)
  have w2: "w' = w2"
    using Cons.prems r rec by simp
  have s1: "db w1 = db w \<and> ls w1 = ls w \<and>
     (\<exists>t. trace w1 = trace w @ t \<and> set t \<subseteq> {Db User_profiles Select})"
    using r by (auto simp: user_profiles_select_single_def accessed_def split: if_splits)
  from Cons.IH [OF rec] s1 w2 show ?case
    by auto
qed

lemma enroll_summary:
  "ls (snd (enrollInCourse f user cached cid w)) = ls w \<and>
   (\<exists>new. logs (db (snd (enrollInCourse f user cached cid w))) = logs (db w) @ new) \<and>
   (enrollments (db (snd (enrollInCourse f user cached cid w))) = enrollments (db w) \<or>
    (\<exists>e. \<not> enrolled (course_id e) (student_id e) (db w) \<and>
         enrollments (db (snd (enrollInCourse f user cached cid w))) = enrollments (db w) @ [e])) \<and>
   (\<exists>t. trace (snd (enrollInCourse f user cached cid w)) = trace w @ t \<and>
        set t \<subseteq> {Db Students Select, Db User_profiles Select, Db Students Insert,
                 Db Enrollments Insert, Db Courses Update, Db Logs Insert})"
proof (cases user)
  case None
  then show ?thesis by (simp add: enrollInCourse_def toast_error_def)
next
  case (Some u)
  obtain b w1 where ens: "ensureStudentProfile f (Some u) w = (b, w1)"
    by (meson surj_pair)
  from ensure_trace [OF ens] obtain t where t: "trace w1 = trace w @ t"
    "set t \<subseteq> {Db Students Select, Db User_profiles Select, Db Students Insert}"
    by blast
  have fr: "enrollments (db w1) = enrollments (db w)" "logs (db w1) = logs (db w)" "ls w1 = ls w"
    using ensure_frame [OF ens] by simp_all
  then have en: "enrolled c s (db w1) = enrolled c s (db w)" for c s
    by (simp add: enrolled_def)
  show ?thesis
    unfolding Some using ens t fr en
    by (cases b)
      (auto simp: enrollInCourse_def enrollments_insert_def courses_update_enrollment_def
        logs_insert_def effects Let_def split: option.splits prod.splits if_splits)
qed

lemma drop_summary:
  "ls (snd (dropCourse f user cached cid w)) = ls w \<and>
   (\<exists>new. logs (db (snd (dropCourse f user cached cid w))) = logs (db w) @ new) \<and>
   (enrollments (db (snd (dropCourse f user cached cid w))) = enrollments (db w) \<or>
    enrollments (db (snd (dropCourse f user cached cid w))) =
      filter (\<lambda>e. \<not> (course_id e = cid \<and> student_id e = opt_user_id user)) (enrollments (db w))) \<and>
   (\<exists>t. trace (snd (dropCourse f user cached cid w)) = trace w @ t \<and>
        set t \<subseteq> {Db Enrollments Delete, Db Courses Update, Db Logs Insert})"
  by (cases user)
    (auto simp: dropCourse_def enrollments_delete_def courses_update_enrollment_def
      logs_insert_def effects opt_user_id_def Let_def split: option.splits prod.splits if_splits)

lemma isDemoUser_empty [simp]: "\<not> isDemoUser []"
  by (simp add: isDemoUser_def)

lemma addCourse_store:
  assumes "\<not> isDemoUser (opt_user_id user)"
  shows "ls (addCourse clk new_id f user instrs form w) = ls w \<and>
         enrollments (db (addCourse clk new_id f user instrs form w)) = enrollments (db w) \<and>
         (\<exists>new. logs (db (addCourse clk new_id f user instrs form w)) = logs (db w) @ new) \<and>
         (\<exists>t. trace (addCourse clk new_id f user instrs form w) = trace w @ t \<and>
              set t \<subseteq> {Db Courses Insert, Db Logs Insert})"
  using assms
  by (cases user)
    (auto simp: addCourse_def courses_insert_def logs_insert_def effects opt_user_id_def Let_def
      split: option.splits prod.splits if_splits)

lemma addCourse_demo:
  assumes "isDemoUser (opt_user_id user)"
  shows "db (addCourse clk new_id f user instrs form w) = db w \<and>
         (\<exists>t. trace (addCourse clk new_id f user instrs form w) = trace w @ t \<and>
              set t \<subseteq> {LsGet ''demoCourses'', LsSet ''demoCourses''})"
  using assms
  by (cases user)
    (auto simp: addCourse_def shadow_store effects opt_user_id_def Let_def
      split: option.splits prod.splits if_splits)

lemma editCourse_store:
  assumes "\<not> isDemoUser (opt_user_id user)"
  shows "ls (editCourse f user instrs course form w) = ls w \<and>
         enrollments (db (editCourse f user instrs course form w)) = enrollments (db w) \<and>
         (\<exists>new. logs (db (editCourse f user instrs course form w)) = logs (db w) @ new) \<and>
         (\<exists>t. trace (editCourse f user instrs course form w) = trace w @ t \<and>
              set t \<subseteq> {Db Courses Update, Db Logs Insert})"
  using assms
  by (cases user)
    (auto simp: editCourse_def courses_update_single_def logs_insert_def effects opt_user_id_def
      Let_def split: option.splits prod.splits if_splits)

lemma editCourse_demo:
  assumes "isDemoUser (opt_user_id user)"
  shows "db (editCourse f user instrs course form w) = db w \<and>
         (\<exists>t. trace (editCourse f user instrs course form w) = trace w @ t \<and>
              set t \<subseteq> {LsGet ''demoCourses'', LsSet ''demoCourses''})"
  using assms
  by (cases user)
    (auto simp: editCourse_def shadow_store effects opt_user_id_def Let_def
      split: option.splits prod.splits if_splits)

lemma deleteCourse_store:
  assumes "\<not> isDemoUser (opt_user_id user)"
  shows "ls (deleteCourse clk f cascade confirmed user auth_user cid w) = ls w \<and>
         (enrollments (db (deleteCourse clk f cascade confirmed user auth_user cid w)) =
            enrollments (db w) \<or>
          enrollments (db (deleteCourse clk f cascade confirmed user auth_user cid w)) =
            filter (\<lambda>e. course_id e \<noteq> cid) (enrollments (db w))) \<and>
         (\<exists>new. logs (db (deleteCourse clk f cascade confirmed user auth_user cid w)) =
            logs (db w) @ new) \<and>
         (\<exists>t. trace (deleteCourse clk f cascade confirmed user auth_user cid w) = trace w @ t \<and>
              set t \<subseteq> {Db Courses Delete, Db Logs Insert})"
  using assms
  by (auto simp: deleteCourse_def courses_delete_def logs_insert_def effects Let_def
      split: option.splits prod.splits if_splits)

lemma deleteCourse_demo:
  assumes "isDemoUser (opt_user_id user)"
  shows "db (deleteCourse clk f cascade confirmed user auth_user cid w) = db w \<and>
         (\<exists>t. trace (deleteCourse clk f cascade confirmed user auth_user cid w) = trace w @ t \<and>
              set t \<subseteq> {LsGet ''demoCourses'', LsSet ''demoCourses'',
                       LsGet ''demoLogs'', LsSet ''demoLogs''})"
  using assms
  by (auto simp: deleteCourse_def shadow_store effects Let_def
      split: option.splits prod.splits if_splits)

lemma admin_fetchCourses_store:
  assumes "\<not> isDemoUser (opt_user_id user)"
  shows "ls (snd (admin_fetchCourses clk f user w)) = ls w \<and>
         db (snd (admin_fetchCourses clk f user w)) = db w \<and>
         (\<exists>t. trace (snd (admin_fetchCourses clk f user w)) = trace w @ t \<and>
              set t \<subseteq> {Db Courses Select})"
  using assms
  by (auto simp: admin_fetchCourses_def courses_select_def effects
      split: option.splits prod.splits sum.splits if_splits)

lemma admin_fetchCourses_demo:
  assumes "isDemoUser (opt_user_id user)"
  shows "db (snd (admin_fetchCourses clk f user w)) = db w \<and>
         (\<exists>t. trace (snd (admin_fetchCourses clk f user w)) = trace w @ t \<and>
              set t \<subseteq> {LsGet ''demoCourses'', LsSet ''demoCourses''})"
  using assms
  by (auto simp: admin_fetchCourses_def shadow_store effects
      split: option.splits prod.splits sum.splits if_splits)

lemma fetchLogs_store:
  assumes "\<not> isDemoUser (opt_user_id user)"
  shows "ls (snd (fetchLogs clk f user w)) = ls w \<and>
         db (snd (fetchLogs clk f user w)) = db w \<and>
         (\<exists>t. trace (snd (fetchLogs clk f user w)) = trace w @ t \<and>
              set t \<subseteq> {Db Logs Select, Db User_profiles Select})"
proof (cases "f Logs Select")
  case (Some e)
  then show ?thesis
    by (simp add: fetchLogs_def logs_select_def effects)
next
  case None
  obtain shown w2 where l: "logsWithUserInfo f (take 10 (rev (logs (db w))))
      (accessed (Db Logs Select) w) = (shown, w2)"
    by (meson surj_pair)
  from logsWithUserInfo_frame [OF l] obtain t where
    "db w2 = db w" "ls w2 = ls w" "trace w2 = trace w @ Db Logs Select # t"
    "set t \<subseteq> {Db User_profiles Select}"
    by (auto simp: accessed_def)
  then show ?thesis
    using assms None l by (auto simp: fetchLogs_def logs_select_def)
qed

lemma fetchLogs_demo:
  assumes "isDemoUser (opt_user_id user)"
  shows "db (snd (fetchLogs clk f user w)) = db w \<and>
         (\<exists>t. trace (snd (fetchLogs clk f user w)) = trace w @ t \<and>
              set t \<subseteq> {Db Logs Select, LsGet ''demoLogs'', LsSet ''demoLogs''})"
  using assms
  by (auto simp: fetchLogs_def logs_select_def shadow_store effects
      split: option.splits prod.splits sum.splits if_splits)

lemma student_fetchCourses_frame:
  "ls (snd (student_fetchCourses f w)) = ls w \<and>
   db (snd (student_fetchCourses f w)) = db w \<and>
   (\<exists>t. trace (snd (student_fetchCourses f w)) = trace w @ t \<and> set t \<subseteq> {Db Courses Select})"
  by (auto simp: student_fetchCourses_def courses_select_def effects
      split: option.splits prod.splits sum.splits if_splits)

lemma fetchEnrollments_frame:
  "ls (snd (fetchEnrollments f user w)) = ls w \<and>
   db (snd (fetchEnrollments f user w)) = db w \<and>
   (\<exists>t. trace (snd (fetchEnrollments f user w)) = trace w @ t \<and>
        set t \<subseteq> {Db Enrollments Select})"
  by (auto simp: fetchEnrollments_def enrollments_select_student_def effects
      split: option.splits prod.splits sum.splits if_splits)

lemma fetchInstructorCourses_frame:
  "ls (snd (fetchInstructorCourses f user w)) = ls w \<and>
   db (snd (fetchInstructorCourses f user w)) = db w \<and>
   (\<exists>t. trace (snd (fetchInstructorCourses f user w)) = trace w @ t \<and>
        set t \<subseteq> {Db Courses Select})"
  by (auto simp: fetchInstructorCourses_def courses_select_instructor_def effects
      split: option.splits prod.splits sum.splits if_splits)

lemma fetchAllEnrollments_frame:
  "ls (snd (fetchAllEnrollments f w)) = ls w \<and>
   db (snd (fetchAllEnrollments f w)) = db w \<and>
   (\<exists>t. trace (snd (fetchAllEnrollments f w)) = trace w @ t \<and>
        set t \<subseteq> {Db Enrollments Select})"
  by (auto simp: fetchAllEnrollments_def enrollments_select_all_def effects
      split: option.splits prod.splits sum.splits if_splits)

lemma viewCourseStudents_frame:
  "ls (snd (viewCourseStudents f cid w)) = ls w \<and>
   db (snd (viewCourseStudents f cid w)) = db w \<and>
   (\<exists>t. trace (snd (viewCourseStudents f cid w)) = trace w @ t \<and>
        set t \<subseteq> {Db Enrollments Select})"
  by (auto simp: viewCourseStudents_def enrollments_select_course_def effects
      split: option.splits prod.splits sum.splits if_splits)

lemma addCourseModal_effect_frame:
  "ls (snd (addCourseModal_effect f user w)) = ls w \<and>
   db (snd (addCourseModal_effect f user w)) = db w \<and>
   (\<exists>t. trace (snd (addCourseModal_effect f user w)) = trace w @ t \<and>
        set t \<subseteq> {Db Instructors Select})"
  by (auto simp: addCourseModal_effect_def add_fetchInstructors_def instructors_select_def effects
      split: option.splits prod.splits sum.splits list.splits if_splits)

lemma editCourseModal_effect_frame:
  "ls (snd (editCourseModal_effect f user selected w)) = ls w \<and>
   db (snd (editCourseModal_effect f user selected w)) = db w \<and>
   (\<exists>t. trace (snd (editCourseModal_effect f user selected w)) = trace w @ t \<and>
        set t \<subseteq> {Db Instructors Select})"
  by (auto simp: editCourseModal_effect_def edit_fetchInstructors_def instructors_select_def
      effects split: option.splits prod.splits sum.splits list.splits if_splits)

lemma adds_filter:
  assumes "trace w' = trace w @ t" and "\<forall>a \<in> set t. \<not> P a"
  shows "filter P (trace w') = filter P (trace w)"
  using assms by (simp add: filter_empty_conv)

text \<open>What one command adds to the trace.\<close>

lemma step_adds:
  "\<exists>t. trace (step c w) = trace w @ t \<and> (\<forall>a \<in> set t. \<not> log_rewrite a) \<and>
       (\<not> isDemoUser (opt_user_id (issuer c)) \<or> store_only c \<longrightarrow> (\<forall>a \<in> set t. \<not> is_ls a)) \<and>
       (isDemoUser (opt_user_id (issuer c)) \<and> shadowed c \<longrightarrow> (\<forall>a \<in> set t. \<not> is_db a))"
proof (cases c)
  case (Enroll f user cached cid)
  then show ?thesis using enroll_summary [of f user cached cid w] by fastforce
next
  case (Drop f user cached cid)
  then show ?thesis using drop_summary [of f user cached cid w] by fastforce
next
  case (AddCourse clk new_id f user instrs form)
  then show ?thesis
    using addCourse_store [of user clk new_id f instrs form w]
      addCourse_demo [of user clk new_id f instrs form w]
    by (cases "isDemoUser (opt_user_id user)") fastforce+
next
  case (EditCourse f user instrs course form)
  then show ?thesis
    using editCourse_store [of user f instrs course form w]
      editCourse_demo [of user f instrs course form w]
    by (cases "isDemoUser (opt_user_id user)") fastforce+
next
  case (DeleteCourse clk f cascade confirmed user auth_user cid)
  then show ?thesis
    using deleteCourse_store [of user clk f cascade confirmed auth_user cid w]
      deleteCourse_demo [of user clk f cascade confirmed auth_user cid w]
    by (cases "isDemoUser (opt_user_id user)") fastforce+
next
  case (AdminFetchCourses clk f user)
  then show ?thesis
    using admin_fetchCourses_store [of user clk f w] admin_fetchCourses_demo [of user clk f w]
    by (cases "isDemoUser (opt_user_id user)") fastforce+
next
  case (AdminFetchLogs clk f user)
  then show ?thesis
    using fetchLogs_store [of user clk f w] fetchLogs_demo [of user clk f w]
    by (cases "isDemoUser (opt_user_id user)") fastforce+
next
  case (StudentFetchCourses f user)
  then show ?thesis using student_fetchCourses_frame [of f w] by fastforce
next
  case (StudentFetchEnrollments f user)
  then show ?thesis using fetchEnrollments_frame [of f user w] by fastforce
next
  case (InstructorFetchCourses f user)
  then show ?thesis using fetchInstructorCourses_frame [of f user w] by fastforce
next
  case (FetchAllEnrollments f user)
  then show ?thesis using fetchAllEnrollments_frame [of f w] by fastforce
next
  case (ViewCourseStudents f user cid)
  then show ?thesis using viewCourseStudents_frame [of f cid w] by fastforce
next
  case (OpenAddCourseModal f user)
  then show ?thesis using addCourseModal_effect_frame [of f user w] by fastforce
next
  case (OpenEditCourseModal f user selected)
  then show ?thesis using editCourseModal_effect_frame [of f user selected w] by fastforce
qed

lemma step_logs: "\<exists>new. logs (db (step c w)) = logs (db w) @ new"
proof (cases c)
  case (Enroll f user cached cid)
  then show ?thesis using enroll_summary [of f user cached cid w] by auto
next
  case (Drop f user cached cid)
  then show ?thesis using drop_summary [of f user cached cid w] by auto
next
  case (AddCourse clk new_id f user instrs form)
  then show ?thesis
    using addCourse_store [of user clk new_id f instrs form w]
      addCourse_demo [of user clk new_id f instrs form w]
    by (cases "isDemoUser (opt_user_id user)") auto
next
  case (EditCourse f user instrs course form)
  then show ?thesis
    using editCourse_store [of user f instrs course form w]
      editCourse_demo [of user f instrs course form w]
    by (cases "isDemoUser (opt_user_id user)") auto
next
  case (DeleteCourse clk f cascade confirmed user auth_user cid)
  then show ?thesis
    using deleteCourse_store [of user clk f cascade confirmed auth_user cid w]
      deleteCourse_demo [of user clk f cascade confirmed auth_user cid w]
    by (cases "isDemoUser (opt_user_id user)") auto
next
  case (AdminFetchCourses clk f user)
  then show ?thesis
    using admin_fetchCourses_store [of user clk f w] admin_fetchCourses_demo [of user clk f w]
    by (cases "isDemoUser (opt_user_id user)") auto
next
  case (AdminFetchLogs clk f user)
  then show ?thesis
    using fetchLogs_store [of user clk f w] fetchLogs_demo [of user clk f w]
    by (cases "isDemoUser (opt_user_id user)") auto
next
  case (StudentFetchCourses f user)
  then show ?thesis using student_fetchCourses_frame [of f w] by auto
next
  case (StudentFetchEnrollments f user)
  then show ?thesis using fetchEnrollments_frame [of f user w] by auto
next
  case (InstructorFetchCourses f user)
  then show ?thesis using fetchInstructorCourses_frame [of f user w] by auto
next
  case (FetchAllEnrollments f user)
  then show ?thesis using fetchAllEnrollments_frame [of f w] by auto
next
  case (ViewCourseStudents f user cid)
  then show ?thesis using viewCourseStudents_frame [of f cid w] by auto
next
  case (OpenAddCourseModal f user)
  then show ?thesis using addCourseModal_effect_frame [of f user w] by auto
next
  case (OpenEditCourseModal f user selected)
  then show ?thesis using editCourseModal_effect_frame [of f user selected w] by auto
qed

lemma unique_append:
  assumes "unique_enrollments s" and "\<not> enrolled (course_id e) (student_id e) s"
      and "enrollments s' = enrollments s @ [e]"
  shows "unique_enrollments s'"
  using assms by (auto simp: unique_enrollments_def enrolled_def list_ex_iff)

lemma unique_filter:
  assumes "unique_enrollments s" and "enrollments s' = filter P (enrollments s)"
  shows "unique_enrollments s'"
  using assms by (simp add: unique_enrollments_def distinct_map_filter)

lemma unique_same:
  assumes "unique_enrollments s" and "enrollments s' = enrollments s"
  shows "unique_enrollments s'"
  using assms by (simp add: unique_enrollments_def)

lemma step_unique:
  assumes "unique_enrollments (db w)"
  shows "unique_enrollments (db (step c w))"
proof (cases c)
  case (Enroll f user cached cid)
  then show ?thesis
    using enroll_summary [of f user cached cid w] unique_append [OF assms] unique_same [OF assms]
    by auto
next
  case (Drop f user cached cid)
  then show ?thesis
    using drop_summary [of f user cached cid w] unique_filter [OF assms] unique_same [OF assms]
    by auto
next
  case (AddCourse clk new_id f user instrs form)
  then show ?thesis
    using addCourse_store [of user clk new_id f instrs form w]
      addCourse_demo [of user clk new_id f instrs form w] unique_same [OF assms]
    by (cases "isDemoUser (opt_user_id user)") auto
next
  case (EditCourse f user instrs course form)
  then show ?thesis
    using editCourse_store [of user f instrs course form w]
      editCourse_demo [of user f instrs course form w] unique_same [OF assms]
    by (cases "isDemoUser (opt_user_id user)") auto
next
  case (DeleteCourse clk f cascade confirmed user auth_user cid)
  then show ?thesis
    using deleteCourse_store [of user clk f cascade confirmed auth_user cid w]
      deleteCourse_demo [of user clk f cascade confirmed auth_user cid w]
      unique_same [OF assms] unique_filter [OF assms]
    by (cases "isDemoUser (opt_user_id user)") auto
next
  case (AdminFetchCourses clk f user)
  then show ?thesis
    using admin_fetchCourses_store [of user clk f w] admin_fetchCourses_demo [of user clk f w]
      unique_same [OF assms]
    by (cases "isDemoUser (opt_user_id user)") auto
next
  case (AdminFetchLogs clk f user)
  then show ?thesis
    using fetchLogs_store [of user clk f w] fetchLogs_demo [of user clk f w]
      unique_same [OF assms]
    by (cases "isDemoUser (opt_user_id user)") auto
next
  case (StudentFetchCourses f user)
  then show ?thesis using student_fetchCourses_frame [of f w] unique_same [OF assms] by auto
next
  case (StudentFetchEnrollments f user)
  then show ?thesis using fetchEnrollments_frame [of f user w] unique_same [OF assms] by auto
next
  case (InstructorFetchCourses f user)
  then show ?thesis
    using fetchInstructorCourses_frame [of f user w] unique_same [OF assms] by auto
next
  case (FetchAllEnrollments f user)
  then show ?thesis using fetchAllEnrollments_frame [of f w] unique_same [OF assms] by auto
next
  case (ViewCourseStudents f user cid)
  then show ?thesis using viewCourseStudents_frame [of f cid w] unique_same [OF assms] by auto
next
  case (OpenAddCourseModal f user)
  then show ?thesis
    using addCourseModal_effect_frame [of f user w] unique_same [OF assms] by auto
next
  case (OpenEditCourseModal f user selected)
  then show ?thesis
    using editCourseModal_effect_frame [of f user selected w] unique_same [OF assms] by auto
qed

lemma run_unique:
  "unique_enrollments (db w) \<Longrightarrow> unique_enrollments (db (run cs w))"
  by (induction cs arbitrary: w) (simp_all add: step_unique)

lemma run_logs: "prefix (logs (db w)) (logs (db (run cs w)))"
proof (induction cs arbitrary: w)
  case Nil
  then show ?case by simp
next
  case (Cons c cs)
  from step_logs [of c w] have "prefix (logs (db w)) (logs (db (step c w)))"
    by (auto simp: prefix_def)
  with Cons.IH [of "step c w"] show ?case
    by (auto intro: prefix_order.trans)
qed

lemma run_no_log_rewrite:
  "filter log_rewrite (trace (run cs w)) = filter log_rewrite (trace w)"
proof (induction cs arbitrary: w)
  case Nil
  then show ?case by simp
next
  case (Cons c cs)
  from step_adds [of c w] obtain t where "trace (step c w) = trace w @ t"
    "\<forall>a \<in> set t. \<not> log_rewrite a"
    by blast
  then have "filter log_rewrite (trace (step c w)) = filter log_rewrite (trace w)"
    by (rule adds_filter)
  with Cons.IH [of "step c w"] show ?case by simp
qed





text \<open>The demo log of the shadow store is not append-only: it never holds more than 20 entries.\<close>

lemma addDemoLog_cap:
  "demoLogs (ls (addDemoLog l w)) = Some (take 20 (l # (case demoLogs (ls w) of None \<Rightarrow> [] | Some stored \<Rightarrow> stored)))"
  by (simp add: addDemoLog_def getItem_demoLogs_def setItem_demoLogs_def accessed_def)



text \<open>
  C10. In every state reached from any state by any sequence of commands, the log table
  is the log table of the start with rows appended at the end: no row of it is changed or
  removed, and no command sends an update or a delete to the log table. (The demo log in
  \<open>localStorage\<close>, which \<open>addDemoLog\<close> cuts to 20 entries, is not the ActionLog table.)
\<close>

theorem logs_append_only:
  "prefix (logs (db w)) (logs (db (run cs w))) \<and>
   filter log_rewrite (trace (run cs w)) = filter log_rewrite (trace w)"
  by (simp add: run_logs run_no_log_rewrite)











text \<open>
  C2, amended. At most one Enrollment row per (course, student) pair exists in every state
  reached from a state where that holds. An enroll attempt for an already-enrolled pair
  never succeeds, inserts no Enrollment row, changes no course row (so no
  current_enrollment) and appends no log entry. On a call the view can make (the cached
  row of the course is not full) it ends with DuplicateEnrollment, the answer to the
  store's unique violation, unless the student-profile step or the insert request itself
  fails first.
\<close>

theorem enroll_already_enrolled:
  assumes "enrolled cid (user_id u) (db w)"
  shows "fst (enrollInCourse f (Some u) cached cid w) \<noteq> Success \<and>
         enrollments (db (snd (enrollInCourse f (Some u) cached cid w))) = enrollments (db w) \<and>
         courses (db (snd (enrollInCourse f (Some u) cached cid w))) = courses (db w) \<and>
         logs (db (snd (enrollInCourse f (Some u) cached cid w))) = logs (db w) \<and>
         (fst (ensureStudentProfile f (Some u) w) \<and>
          find (\<lambda>c. c_id c = cid) cached = Some c \<and>
          current_enrollment c < max_capacity c \<and>
          f Enrollments Insert = None \<longrightarrow>
            fst (enrollInCourse f (Some u) cached cid w) = DuplicateEnrollment) \<and>
         (unique_enrollments (db w0) \<longrightarrow> unique_enrollments (db (run cs w0)))"
proof -
  obtain b w1 where ens: "ensureStudentProfile f (Some u) w = (b, w1)"
    by (meson surj_pair)
  have fr: "enrollments (db w1) = enrollments (db w)" "courses (db w1) = courses (db w)"
    "logs (db w1) = logs (db w)"
    using ensure_frame [OF ens] by simp_all
  then have en: "enrolled cid (user_id u) (db w1)"
    using assms by (simp add: enrolled_def)
  have "fst (enrollInCourse f (Some u) cached cid w) \<noteq> Success \<and>
         enrollments (db (snd (enrollInCourse f (Some u) cached cid w))) = enrollments (db w) \<and>
         courses (db (snd (enrollInCourse f (Some u) cached cid w))) = courses (db w) \<and>
         logs (db (snd (enrollInCourse f (Some u) cached cid w))) = logs (db w) \<and>
         (fst (ensureStudentProfile f (Some u) w) \<and>
          find (\<lambda>c. c_id c = cid) cached = Some c \<and>
          current_enrollment c < max_capacity c \<and>
          f Enrollments Insert = None \<longrightarrow>
            fst (enrollInCourse f (Some u) cached cid w) = DuplicateEnrollment)"
    using ens fr en
    by (cases b)
      (auto simp: enrollInCourse_def enrollments_insert_def effects Let_def
        split: option.splits prod.splits if_splits)
  then show ?thesis
    using run_unique [of w0 cs] by blast
qed

theorem enroll_already_enrolled_witness:
  "enrolled ''c1'' (user_id alice) (db (world_of store_enrolled)) \<and>
   fst (ensureStudentProfile no_faults (Some alice) (world_of store_enrolled)) \<and>
   find (\<lambda>c. c_id c = ''c1'') [algebra2] = Some algebra2 \<and>
   current_enrollment algebra2 < max_capacity algebra2 \<and>
   no_faults Enrollments Insert = None \<and>
   unique_enrollments (db (world_of store_enrolled)) \<and>
   fst (enrollInCourse no_faults (Some alice) [algebra2] ''c1'' (world_of store_enrolled)) =
     DuplicateEnrollment \<and>
   enrollments (db (snd (enrollInCourse no_faults (Some alice) [algebra2] ''c1''
     (world_of store_enrolled)))) = enrollments (db (world_of store_enrolled)) \<and>
   courses (db (snd (enrollInCourse no_faults (Some alice) [algebra2] ''c1''
     (world_of store_enrolled)))) = [algebra2] \<and>
   unique_enrollments (db (run [Enroll no_faults (Some alice) [algebra2] ''c1'']
     (world_of store_enrolled)))"
proof -
  have h1: "enrolled ''c1'' (user_id alice) (db (world_of store_enrolled))"
    by (simp add: enrolled_def world_of_def store_enrolled_def store_open_def store_full_def
        alice_def)
  have h2: "fst (ensureStudentProfile no_faults (Some alice) (world_of store_enrolled))"
    by (simp add: ensureStudentProfile_def students_select_single_def single_def no_faults_def
        world_of_def store_enrolled_def store_open_def store_full_def student_row_def alice_def)
  have h3: "find (\<lambda>c. c_id c = ''c1'') [algebra2] = Some algebra2"
    "current_enrollment algebra2 < max_capacity algebra2"
    by (simp_all add: algebra2_def algebra_def)
  have h4: "no_faults Enrollments Insert = None"
    by (simp add: no_faults_def)
  have h5: "unique_enrollments (db (world_of store_enrolled))"
    by (simp add: unique_enrollments_def world_of_def store_enrolled_def store_open_def
        store_full_def)
  have h6: "courses (db (world_of store_enrolled)) = [algebra2]"
    by (simp add: world_of_def store_enrolled_def store_open_def store_full_def)
  show ?thesis
    using enroll_already_enrolled [OF h1, of no_faults "[algebra2]" algebra2
        "world_of store_enrolled" "[Enroll no_faults (Some alice) [algebra2] ''c1'']"]
      h1 h2 h3 h4 h5 h6
    by simp
qed

text \<open>
  C2 as stated fails when a request of the call fails at the store. Alice is enrolled,
  the cached row of the course is not full (2 of 5): when the lookup of her Student row
  fails the second enroll ends with ProfileError, and when the insert request fails for
  another reason than the unique violation it ends with StoreError.
\<close>

theorem second_enroll_failure_counterexample:
  "enrolled ''c1'' (user_id alice) (db (world_of store_enrolled)) \<and>
   find (\<lambda>c. c_id c = ''c1'') [algebra2] = Some algebra2 \<and>
   current_enrollment algebra2 < max_capacity algebra2 \<and>
   fst (enrollInCourse lookup_fails (Some alice) [algebra2] ''c1'' (world_of store_enrolled)) =
     ProfileError \<and>
   fst (enrollInCourse insert_fails (Some alice) [algebra2] ''c1'' (world_of store_enrolled)) =
     StoreError"
  by (simp add: enrollInCourse_def ensureStudentProfile_def requests effects
      insert_fails_def lookup_fails_def enrolled_def world_of_def store_enrolled_def
      store_open_def store_full_def student_row_def alice_def algebra2_def algebra_def)

text \<open>
  C3, amended. For a pair (C, S) with no Enrollment row, drop deletes no Enrollment row:
  the delete is a no-op at the store. The counter update and the log insert are sent all
  the same: when the delete request does not fail the drop succeeds, every stored row of
  C gets the cached current_enrollment minus 1, or 0 when the cached value is not positive
  or C is not in the cached list (unless the update request fails), and a
  \<open>student_dropped\<close> entry is appended (unless the log insert fails). For every drop, a
  course row that the drop changed holds a current_enrollment of at least 0.
\<close>

theorem drop_not_enrolled:
  "(\<not> enrolled cid (user_id u) (db w) \<longrightarrow>
      enrollments (db (snd (dropCourse f (Some u) cached cid w))) = enrollments (db w)) \<and>
   (\<forall>c \<in> set (courses (db (snd (dropCourse f (Some u) cached cid w)))).
      c \<in> set (courses (db w)) \<or> 0 \<le> current_enrollment c) \<and>
   (f Enrollments Delete = None \<longrightarrow>
      fst (dropCourse f (Some u) cached cid w) = Success \<and>
      courses (db (snd (dropCourse f (Some u) cached cid w))) =
        (if f Courses Update = None
         then map (\<lambda>c. if c_id c = cid
                       then c\<lparr>current_enrollment :=
                                (case find (\<lambda>c. c_id c = cid) cached of
                                   None \<Rightarrow> 0
                                 | Some c \<Rightarrow> if current_enrollment c > 0
                                             then current_enrollment c - 1 else 0)\<rparr>
                       else c) (courses (db w))
         else courses (db w)) \<and>
      logs (db (snd (dropCourse f (Some u) cached cid w))) =
        (if f Logs Insert = None
         then logs (db w) @
           [\<lparr>action = ''student_dropped'', performed_by = Some (user_id u),
             details = [(''course_id'', JStr cid), (''student_id'', JStr (user_id u))]\<rparr>]
         else logs (db w)))"
proof -
  have keep: "filter (\<lambda>e. \<not> (course_id e = cid \<and> student_id e = user_id u)) (enrollments (db w)) =
      enrollments (db w)" if "\<not> enrolled cid (user_id u) (db w)"
    using that by (auto simp: enrolled_def list_ex_iff filter_id_conv)
  have a: "\<not> enrolled cid (user_id u) (db w) \<longrightarrow>
      enrollments (db (snd (dropCourse f (Some u) cached cid w))) = enrollments (db w)"
    using keep
    by (auto simp: dropCourse_def enrollments_delete_def courses_update_enrollment_def
        logs_insert_def effects Let_def split: option.splits prod.splits if_splits)
  have b: "\<forall>c \<in> set (courses (db (snd (dropCourse f (Some u) cached cid w)))).
      c \<in> set (courses (db w)) \<or> 0 \<le> current_enrollment c"
    by (auto simp: dropCourse_def enrollments_delete_def courses_update_enrollment_def
        logs_insert_def effects Let_def split: option.splits prod.splits if_splits)
  have c: "f Enrollments Delete = None \<longrightarrow>
      fst (dropCourse f (Some u) cached cid w) = Success \<and>
      courses (db (snd (dropCourse f (Some u) cached cid w))) =
        (if f Courses Update = None
         then map (\<lambda>c. if c_id c = cid
                       then c\<lparr>current_enrollment :=
                                (case find (\<lambda>c. c_id c = cid) cached of
                                   None \<Rightarrow> 0
                                 | Some c \<Rightarrow> if current_enrollment c > 0
                                             then current_enrollment c - 1 else 0)\<rparr>
                       else c) (courses (db w))
         else courses (db w)) \<and>
      logs (db (snd (dropCourse f (Some u) cached cid w))) =
        (if f Logs Insert = None
         then logs (db w) @
           [\<lparr>action = ''student_dropped'', performed_by = Some (user_id u),
             details = [(''course_id'', JStr cid), (''student_id'', JStr (user_id u))]\<rparr>]
         else logs (db w))"
    by (auto simp: dropCourse_def enrollments_delete_def courses_update_enrollment_def
        logs_insert_def effects Let_def split: option.splits prod.splits if_splits)
  from a b c show ?thesis by blast
qed

theorem drop_not_enrolled_witness:
  "\<not> enrolled ''c1'' (user_id alice) (db (world_of store_open)) \<and>
   no_faults Enrollments Delete = None \<and>
   enrollments (db (snd (dropCourse no_faults (Some alice) [algebra2] ''c1''
     (world_of store_open)))) = enrollments (db (world_of store_open)) \<and>
   fst (dropCourse no_faults (Some alice) [algebra2] ''c1'' (world_of store_open)) = Success \<and>
   courses (db (snd (dropCourse no_faults (Some alice) [algebra2] ''c1''
     (world_of store_open)))) = [algebra2\<lparr>current_enrollment := 1\<rparr>] \<and>
   list_all (\<lambda>c. 0 \<le> current_enrollment c)
     (courses (db (snd (dropCourse no_faults (Some alice) [algebra2] ''c1''
       (world_of store_open)))))"
proof -
  have h1: "\<not> enrolled ''c1'' (user_id alice) (db (world_of store_open))"
    by (simp add: enrolled_def world_of_def store_open_def store_full_def)
  have h2: "no_faults Enrollments Delete = None" "no_faults Courses Update = None"
    by (simp_all add: no_faults_def)
  have h3: "courses (db (world_of store_open)) = [algebra2]" "c_id algebra2 = ''c1''"
    "current_enrollment algebra2 = 2"
    by (simp_all add: world_of_def store_open_def store_full_def algebra2_def algebra_def)
  show ?thesis
    using drop_not_enrolled [of "''c1''" alice "world_of store_open" no_faults "[algebra2]"]
      h1 h2 h3
    by simp
qed

text \<open>
  C3 as stated fails: Alice is not enrolled in the course, the drop succeeds and the
  stored current_enrollment goes from 2 to 1.
\<close>

theorem drop_not_enrolled_counterexample:
  "\<not> enrolled ''c1'' (user_id alice) (db (world_of store_open)) \<and>
   stored_enrollment (db (world_of store_open)) ''c1'' = Some 2 \<and>
   fst (dropCourse no_faults (Some alice) [algebra2] ''c1'' (world_of store_open)) = Success \<and>
   stored_enrollment (db (snd (dropCourse no_faults (Some alice) [algebra2] ''c1''
     (world_of store_open)))) ''c1'' = Some 1 \<and>
   logs (db (snd (dropCourse no_faults (Some alice) [algebra2] ''c1'' (world_of store_open)))) =
     [\<lparr>action = ''student_dropped'', performed_by = Some ''alice'',
       details = [(''course_id'', JStr ''c1''), (''student_id'', JStr ''alice'')]\<rparr>]"
  by (simp add: dropCourse_def requests effects no_faults_def enrolled_def stored_enrollment_def
      world_of_def store_open_def store_full_def alice_def algebra2_def algebra_def)

end
